theory Spec2Isabelle
  imports Complex_Main
begin

section \<open>Data model of the span decoder (splitner/evaluator\_qa.py)\<close>

text \<open>
  Python exceptions the decoder can raise. The only one is the \<open>IndexError\<close> of a list
  subscript out of range (\<open>self.gold[context_index][tok_index]\<close> and
  \<open>self.dataset.contexts[context_index]\<close>).
\<close>

datatype py_error = IndexError

text \<open>
  Modelled from the spec: the class \<open>Span\<close> of splitner/evaluator.py, which is not part
  of the sources at hand. The decoder builds \<open>Span(context_index, tok_index, tok_index, tag)\<close>,
  reads \<open>.tag\<close> and assigns \<open>.end\<close>; the spec gives the four fields and says that two
  spans are equal iff all four fields match. A span object is truthy (the class is taken
  to define neither \<open>__bool__\<close> nor \<open>__len__\<close>).
\<close>

record span =
  span_context :: nat
  span_start :: nat
  span_end :: nat
  span_tag :: string

definition Span :: "nat \<Rightarrow> nat \<Rightarrow> nat \<Rightarrow> string \<Rightarrow> span" where
  "Span context_index start_tok end_tok tag =
     \<lparr>span_context = context_index, span_start = start_tok, span_end = end_tok, span_tag = tag\<rparr>"

text \<open>
  What the decoder reads of a \<open>NerQADataset\<close> (splitner/dataset\_qa.py, not part of the
  sources at hand): the list \<open>contexts\<close>, each context with its \<open>entity\<close>, and the keys of
  \<open>tag_to_text_mapping\<close>. The dataset is used in a boolean position
  (\<open>... if self.dataset else "TAG"\<close>); it has a length, the number of its contexts
  (main\_qa.py iterates \<open>range(len(dataset))\<close> over \<open>dataset.contexts[i]\<close>), so an empty
  dataset is falsy.
\<close>

record qa_context =
  entity :: string

record ner_qa_dataset =
  contexts :: "qa_context list"
  tag_to_text_mapping :: "(string \<times> string) list"

text \<open>
  The fields of an \<open>EvaluatorQA\<close> object that the decoder reads. The static method
  \<open>NerQADataset.get_tag_index(text_tag, none_tag)\<close> is not part of the sources at hand:
  it is a parameter of the model, the field \<open>get_tag_index\<close>.
\<close>

record evaluator_qa =
  num_labels :: int
  none_tag :: string
  gold :: "int list list"
  predicted :: "int list list"
  dataset :: "ner_qa_dataset option"
  get_tag_index :: "string \<Rightarrow> string \<Rightarrow> int"

definition dataset_truthy :: "ner_qa_dataset option \<Rightarrow> bool" where
  "dataset_truthy ds = (case ds of None \<Rightarrow> False | Some d \<Rightarrow> contexts d \<noteq> [])"

text \<open>
  The expression \<open>self.dataset.contexts[context_index].entity if self.dataset else "TAG"\<close>.
\<close>

definition entity_tag :: "evaluator_qa \<Rightarrow> nat \<Rightarrow> py_error + string" where
  "entity_tag self context_index =
     (if dataset_truthy (dataset self)
      then (let ctxs = contexts (the (dataset self))
            in if context_index < length ctxs
               then Inr (entity (ctxs ! context_index))
               else Inl IndexError)
      else Inr ''TAG'')"

text \<open>The expression \<open>self.gold[context_index][tok_index]\<close>, both indices non-negative.\<close>

definition gold_at :: "evaluator_qa \<Rightarrow> nat \<Rightarrow> nat \<Rightarrow> py_error + int" where
  "gold_at self context_index tok_index =
     (if context_index < length (gold self)
      then (if tok_index < length (gold self ! context_index)
            then Inr (gold self ! context_index ! tok_index)
            else Inl IndexError)
      else Inl IndexError)"

text \<open>
  The four indices that \<open>get_spans\<close> computes before its loops (lines 41 to 44), each
  \<open>NerQADataset.get_tag_index(..., none_tag=self.none_tag)\<close>.
\<close>

definition b_tag_index :: "evaluator_qa \<Rightarrow> int" where
  "b_tag_index self = get_tag_index self ''B'' (none_tag self)"

definition i_tag_index :: "evaluator_qa \<Rightarrow> int" where
  "i_tag_index self = get_tag_index self ''I'' (none_tag self)"

definition e_tag_index :: "evaluator_qa \<Rightarrow> int" where
  "e_tag_index self = get_tag_index self ''E'' (none_tag self)"

definition s_tag_index :: "evaluator_qa \<Rightarrow> int" where
  "s_tag_index self = get_tag_index self ''S'' (none_tag self)"

section \<open>The decoders\<close>

text \<open>
  The state of the loop over one context is the list \<open>context_spans\<close> and the variable
  \<open>prev_span\<close>. Every \<open>Span\<close> object is appended to \<open>context_spans\<close> when it is created, and
  \<open>prev_span\<close> is either \<open>None\<close> or a reference to one of these objects: the model keeps
  the reference as the position of the object in \<open>context_spans\<close>, so the assignment
  \<open>prev_span.end = tok_index\<close> updates the list at that position.
\<close>

type_synonym decode_state = "span list \<times> nat option"

definition set_end :: "span list \<Rightarrow> nat \<Rightarrow> nat \<Rightarrow> span list" where
  "set_end context_spans k tok_index =
     context_spans[k := (context_spans ! k)\<lparr>span_end := tok_index\<rparr>]"

text \<open>
  One iteration of the inner loop of \<open>get_spans\<close> (lines 49 to 76): \<open>x\<close> is
  \<open>batch[context_index][tok_index]\<close>.
\<close>

definition get_spans_tok ::
  "evaluator_qa \<Rightarrow> nat \<Rightarrow> nat \<Rightarrow> int \<Rightarrow> decode_state \<Rightarrow> py_error + decode_state" where
  "get_spans_tok self context_index tok_index x st =
     (let context_spans = fst st;
          prev_span = snd st
      in case gold_at self context_index tok_index of
           Inl err \<Rightarrow> Inl err
         | Inr g \<Rightarrow>
             if g = - 100 then Inr (context_spans, None)
             else if x = b_tag_index self then
               (case entity_tag self context_index of
                  Inl err \<Rightarrow> Inl err
                | Inr tag \<Rightarrow>
                    Inr (context_spans @ [Span context_index tok_index tok_index tag],
                         Some (length context_spans)))
             else if x = s_tag_index self then
               (case entity_tag self context_index of
                  Inl err \<Rightarrow> Inl err
                | Inr tag \<Rightarrow>
                    Inr (context_spans @ [Span context_index tok_index tok_index tag], None))
             else if prev_span \<noteq> None \<and> x = i_tag_index self then
               (case entity_tag self context_index of
                  Inl err \<Rightarrow> Inl err
                | Inr tag \<Rightarrow>
                    if tag = span_tag (context_spans ! the prev_span) then
                      (if num_labels self = 3
                       then Inr (set_end context_spans (the prev_span) tok_index, prev_span)
                       else Inr (context_spans, prev_span))
                    else Inr (context_spans, None))
             else if prev_span \<noteq> None \<and> x = e_tag_index self then
               (case entity_tag self context_index of
                  Inl err \<Rightarrow> Inl err
                | Inr tag \<Rightarrow>
                    if tag = span_tag (context_spans ! the prev_span)
                    then Inr (set_end context_spans (the prev_span) tok_index, prev_span)
                    else Inr (context_spans, None))
             else Inr (context_spans, None))"

text \<open>
  Both decoders run the same two loops. The inner one,
  \<open>for tok_index in range(len(batch[context_index]))\<close>, threads the state through the
  body \<open>tok\<close>; \<open>xs\<close> is the part of the row still to be read, starting at \<open>tok_index\<close>.
  An exception ends the loop.
\<close>

fun for_tok_index ::
  "(nat \<Rightarrow> int \<Rightarrow> decode_state \<Rightarrow> py_error + decode_state) \<Rightarrow>
   nat \<Rightarrow> int list \<Rightarrow> decode_state \<Rightarrow> py_error + decode_state" where
  "for_tok_index tok tok_index [] st = Inr st"
| "for_tok_index tok tok_index (x # xs) st =
     (case tok tok_index x st of
        Inl err \<Rightarrow> Inl err
      | Inr st' \<Rightarrow> for_tok_index tok (Suc tok_index) xs st')"

text \<open>
  The outer one, \<open>for context_index in range(len(batch))\<close>, starts every context with
  \<open>context_spans = []\<close> and \<open>prev_span = None\<close> and appends the final \<open>context_spans\<close> to
  \<open>batch_spans\<close>; \<open>rows\<close> is the part of the batch still to be read, starting at
  \<open>context_index\<close>.
\<close>

fun for_context_index ::
  "(nat \<Rightarrow> nat \<Rightarrow> int \<Rightarrow> decode_state \<Rightarrow> py_error + decode_state) \<Rightarrow>
   nat \<Rightarrow> int list list \<Rightarrow> py_error + span list list" where
  "for_context_index tok context_index [] = Inr []"
| "for_context_index tok context_index (row # rows) =
     (case for_tok_index (tok context_index) 0 row ([], None) of
        Inl err \<Rightarrow> Inl err
      | Inr st \<Rightarrow>
          (case for_context_index tok (Suc context_index) rows of
             Inl err \<Rightarrow> Inl err
           | Inr batch_spans \<Rightarrow> Inr (fst st # batch_spans)))"

definition get_spans :: "evaluator_qa \<Rightarrow> int list list \<Rightarrow> py_error + span list list" where
  "get_spans self batch = for_context_index (get_spans_tok self) 0 batch"

text \<open>
  One iteration of the inner loop of \<open>get_spans_for_2_tag_scheme\<close> (lines 87 to 99).
\<close>

definition get_spans_for_2_tag_scheme_tok ::
  "evaluator_qa \<Rightarrow> nat \<Rightarrow> nat \<Rightarrow> int \<Rightarrow> decode_state \<Rightarrow> py_error + decode_state" where
  "get_spans_for_2_tag_scheme_tok self context_index tok_index x st =
     (let context_spans = fst st;
          prev_span = snd st
      in case gold_at self context_index tok_index of
           Inl err \<Rightarrow> Inl err
         | Inr g \<Rightarrow>
             if g = - 100 then Inr (context_spans, None)
             else if x = b_tag_index self then
               (case entity_tag self context_index of
                  Inl err \<Rightarrow> Inl err
                | Inr tag \<Rightarrow>
                    if prev_span \<noteq> None \<and> tag = span_tag (context_spans ! the prev_span)
                    then Inr (set_end context_spans (the prev_span) tok_index, prev_span)
                    else Inr (context_spans @ [Span context_index tok_index tok_index tag],
                              Some (length context_spans)))
             else Inr (context_spans, None))"

definition get_spans_for_2_tag_scheme ::
  "evaluator_qa \<Rightarrow> int list list \<Rightarrow> py_error + span list list" where
  "get_spans_for_2_tag_scheme self batch =
     for_context_index (get_spans_for_2_tag_scheme_tok self) 0 batch"

text \<open>
  The choice of decoder in \<open>__init__\<close> (lines 17 to 23).
\<close>

definition decode :: "evaluator_qa \<Rightarrow> int list list \<Rightarrow> py_error + span list list" where
  "decode self batch =
     (if num_labels self = 2 then get_spans_for_2_tag_scheme self batch
      else get_spans self batch)"


section \<open>Scoring\<close>

text \<open>
  The class \<open>Metric\<close> of splitner/evaluator.py is not part of the sources at hand.
  \<open>calc_entity_metrics\<close> only calls its methods \<open>add_tp\<close>, \<open>add_fp\<close> and \<open>add_fn\<close>, each
  with one span: the accumulator is a parameter of the model, a function \<open>acc\<close> that takes
  the accumulator and the call made and returns the updated accumulator.
\<close>

datatype metric_call = Add_tp span | Add_fp span | Add_fn span

text \<open>
  The body of the loop over the contexts (lines 29 to 36). \<open>span in gold_sent_spans\<close> is
  membership by the equality of spans.
\<close>

definition calc_context_metrics ::
  "('m \<Rightarrow> metric_call \<Rightarrow> 'm) \<Rightarrow> span list \<Rightarrow> span list \<Rightarrow> 'm \<Rightarrow> 'm" where
  "calc_context_metrics acc gold_sent_spans predicted_sent_spans entity_metric =
     (let m1 = fold (\<lambda>sp m. if sp \<in> set gold_sent_spans
                                then acc m (Add_tp sp) else acc m (Add_fp sp))
                    predicted_sent_spans entity_metric
      in fold (\<lambda>sp m. if sp \<notin> set predicted_sent_spans
                          then acc m (Add_fn sp) else m)
              gold_sent_spans m1)"

text \<open>
  \<open>calc_entity_metrics\<close> (lines 26 to 37): \<open>m0\<close> is \<open>Metric(self.tags)\<close>; the loop runs over
  \<open>zip(self.gold_entity_spans, self.predicted_entity_spans)\<close>, which stops at the end of
  the shorter list.
\<close>

definition calc_entity_metrics ::
  "('m \<Rightarrow> metric_call \<Rightarrow> 'm) \<Rightarrow> 'm \<Rightarrow> span list list \<Rightarrow> span list list \<Rightarrow> 'm" where
  "calc_entity_metrics acc m0 gold_entity_spans predicted_entity_spans =
     fold (\<lambda>(gold_sent_spans, predicted_sent_spans) m.
             calc_context_metrics acc gold_sent_spans predicted_sent_spans m)
          (zip gold_entity_spans predicted_entity_spans) m0"

text \<open>
  Modelled from the spec: the accumulator \<open>Metric\<close> (splitner/evaluator.py, not part of
  the sources at hand). The spec gives it per entity type the counters true positive,
  false positive and false negative, and a registry of the known entity types that is
  written on first use and keeps the order of insertion; it is changed only by
  \<open>add_tp\<close>, \<open>add_fp\<close> and \<open>add_fn\<close>, each counting one for the type of its span.
\<close>

record counters =
  true_positive :: nat
  false_positive :: nat
  false_negative :: nat

record metric =
  registry :: "string list"
  counts :: "string \<Rightarrow> counters"

definition Metric :: "string list \<Rightarrow> metric" where
  "Metric tags =
     \<lparr>registry = tags,
      counts = (\<lambda>t. \<lparr>true_positive = 0, false_positive = 0, false_negative = 0\<rparr>)\<rparr>"

definition register :: "metric \<Rightarrow> string \<Rightarrow> metric" where
  "register m t = (if t \<in> set (registry m) then m else m\<lparr>registry := registry m @ [t]\<rparr>)"

definition add_tp :: "metric \<Rightarrow> span \<Rightarrow> metric" where
  "add_tp m sp =
     (let t = span_tag sp; c = counts m t
      in (register m t)\<lparr>counts := (counts m)(t := c\<lparr>true_positive := Suc (true_positive c)\<rparr>)\<rparr>)"

definition add_fp :: "metric \<Rightarrow> span \<Rightarrow> metric" where
  "add_fp m sp =
     (let t = span_tag sp; c = counts m t
      in (register m t)\<lparr>counts := (counts m)(t := c\<lparr>false_positive := Suc (false_positive c)\<rparr>)\<rparr>)"

definition add_fn :: "metric \<Rightarrow> span \<Rightarrow> metric" where
  "add_fn m sp =
     (let t = span_tag sp; c = counts m t
      in (register m t)\<lparr>counts := (counts m)(t := c\<lparr>false_negative := Suc (false_negative c)\<rparr>)\<rparr>)"

fun metric_acc :: "metric \<Rightarrow> metric_call \<Rightarrow> metric" where
  "metric_acc m (Add_tp sp) = add_tp m sp"
| "metric_acc m (Add_fp sp) = add_fp m sp"
| "metric_acc m (Add_fn sp) = add_fn m sp"

text \<open>
  Modelled from the spec: the derived metrics of \<open>Metric\<close>. Precision is
  \<open>tp / (tp + fp)\<close>, recall is \<open>tp / (tp + fn)\<close>, F1 is
  \<open>2 * precision * recall / (precision + recall)\<close>, each 0 when its denominator is 0; the
  micro-average sums the three counters over the registered entity types and applies the
  same formulas to the sums. The numbers are the exact quotients, not floating-point
  values.
\<close>

definition precision :: "counters \<Rightarrow> real" where
  "precision c =
     (if true_positive c + false_positive c = 0 then 0
      else real (true_positive c) / real (true_positive c + false_positive c))"

definition recall :: "counters \<Rightarrow> real" where
  "recall c =
     (if true_positive c + false_negative c = 0 then 0
      else real (true_positive c) / real (true_positive c + false_negative c))"

definition f1 :: "counters \<Rightarrow> real" where
  "f1 c =
     (if precision c + recall c = 0 then 0
      else 2 * precision c * recall c / (precision c + recall c))"

definition micro_counts :: "metric \<Rightarrow> counters" where
  "micro_counts m =
     \<lparr>true_positive = sum_list (map (\<lambda>t. true_positive (counts m t)) (registry m)),
      false_positive = sum_list (map (\<lambda>t. false_positive (counts m t)) (registry m)),
      false_negative = sum_list (map (\<lambda>t. false_negative (counts m t)) (registry m))\<rparr>"

definition micro_avg_precision :: "metric \<Rightarrow> real" where
  "micro_avg_precision m = precision (micro_counts m)"

definition micro_avg_recall :: "metric \<Rightarrow> real" where
  "micro_avg_recall m = recall (micro_counts m)"

definition micro_avg_f1 :: "metric \<Rightarrow> real" where
  "micro_avg_f1 m = f1 (micro_counts m)"

section \<open>The evaluator\<close>

text \<open>
  \<open>self.tags\<close> (line 15) and \<open>EvaluatorQA.__init__\<close> (lines 17 to 24), on the lists
  \<open>self.gold\<close> and \<open>self.predicted\<close>: the result is \<open>self.entity_metric\<close>, or the exception
  that a decoder raised. \<open>compute_metrics\<close> of main\_qa.py builds the evaluator without a
  dataset.
\<close>

definition evaluator_tags :: "evaluator_qa \<Rightarrow> string list" where
  "evaluator_tags self =
     (if dataset_truthy (dataset self)
      then map fst (tag_to_text_mapping (the (dataset self)))
      else [''TAG''])"

definition EvaluatorQA :: "evaluator_qa \<Rightarrow> py_error + metric" where
  "EvaluatorQA self =
     (case decode self (gold self) of
        Inl err \<Rightarrow> Inl err
      | Inr gold_entity_spans \<Rightarrow>
          (case decode self (predicted self) of
             Inl err \<Rightarrow> Inl err
           | Inr predicted_entity_spans \<Rightarrow>
               Inr (calc_entity_metrics metric_acc (Metric (evaluator_tags self))
                      gold_entity_spans predicted_entity_spans)))"

text \<open>The counters that the evaluator reports for one entity type.\<close>

definition reported :: "py_error + metric \<Rightarrow> string \<Rightarrow> py_error + counters" where
  "reported r t = (case r of Inl err \<Rightarrow> Inl err | Inr m \<Rightarrow> Inr (counts m t))"

section \<open>Notions used in the statements\<close>

text \<open>
  A position is scorable when the gold array has a value there and the value is not the
  sentinel -100.
\<close>

definition scorable :: "evaluator_qa \<Rightarrow> nat \<Rightarrow> nat \<Rightarrow> bool" where
  "scorable self context_index tok_index =
     (case gold_at self context_index tok_index of Inl err \<Rightarrow> False | Inr g \<Rightarrow> g \<noteq> - 100)"

text \<open>
  The test \<open>tag == prev_span.tag\<close> of lines 64, 71 and 92 fails in a state: a span is
  open and its type is not the type resolved for the context.
\<close>

definition type_mismatch :: "evaluator_qa \<Rightarrow> nat \<Rightarrow> decode_state \<Rightarrow> bool" where
  "type_mismatch self context_index st =
     (case snd st of
        None \<Rightarrow> False
      | Some k \<Rightarrow>
          (case entity_tag self context_index of
             Inl err \<Rightarrow> False
           | Inr tag \<Rightarrow> tag \<noteq> span_tag (fst st ! k)))"

text \<open>
  The length of the gold row of a context, 0 when the gold array has no such row: a row
  of the decoded batch that is longer makes \<open>self.gold[context_index][tok_index]\<close> raise.
\<close>

definition gold_len :: "evaluator_qa \<Rightarrow> nat \<Rightarrow> nat" where
  "gold_len self context_index =
     (if context_index < length (gold self) then length (gold self ! context_index) else 0)"

definition fits_gold :: "evaluator_qa \<Rightarrow> int list list \<Rightarrow> bool" where
  "fits_gold self batch = (\<forall>c < length batch. length (batch ! c) \<le> gold_len self c)"

text \<open>
  The changes that one iteration of either decoder can make to the state at position
  \<open>m\<close> of context \<open>c\<close>: close the open span, keep the state, append a one-token span and
  keep it open or not, or move the end of the open span to \<open>m\<close>.
\<close>

inductive decode_step ::
  "evaluator_qa \<Rightarrow> nat \<Rightarrow> nat \<Rightarrow> decode_state \<Rightarrow> decode_state \<Rightarrow> bool"
  for self c m where
  step_close: "decode_step self c m (cs, prev) (cs, None)"
| step_keep: "decode_step self c m (cs, prev) (cs, prev)"
| step_begin: "scorable self c m \<Longrightarrow> entity_tag self c = Inr t \<Longrightarrow>
     decode_step self c m (cs, prev) (cs @ [Span c m m t], Some (length cs))"
| step_single: "scorable self c m \<Longrightarrow> entity_tag self c = Inr t \<Longrightarrow>
     decode_step self c m (cs, prev) (cs @ [Span c m m t], None)"
| step_extend: "scorable self c m \<Longrightarrow> entity_tag self c = Inr (span_tag (cs ! k)) \<Longrightarrow>
     decode_step self c m (cs, Some k) (set_end cs k m, Some k)"

definition tags_inv :: "evaluator_qa \<Rightarrow> nat \<Rightarrow> decode_state \<Rightarrow> bool" where
  "tags_inv self c st =
     (\<forall>s \<in> set (fst st). entity_tag self c = Inr (span_tag s) \<and> span_context s = c)"

definition mask_inv :: "evaluator_qa \<Rightarrow> nat \<Rightarrow> decode_state \<Rightarrow> bool" where
  "mask_inv self c st =
     (\<forall>s \<in> set (fst st). scorable self c (span_start s) \<and> scorable self c (span_end s))"

definition order_inv :: "nat \<Rightarrow> decode_state \<Rightarrow> bool" where
  "order_inv n st =
     (sorted_wrt (\<lambda>a b. span_end a < span_start b) (fst st) \<and>
      (\<forall>s \<in> set (fst st). span_start s \<le> span_end s \<and> span_end s < n) \<and>
      (\<forall>k. snd st = Some k \<longrightarrow> Suc k = length (fst st)))"

text \<open>The three invariants of the loop over a row, at position \<open>n\<close>.\<close>

definition row_inv :: "evaluator_qa \<Rightarrow> nat \<Rightarrow> nat \<Rightarrow> decode_state \<Rightarrow> bool" where
  "row_inv self c n st = (tags_inv self c st \<and> mask_inv self c st \<and> order_inv n st)"

text \<open>
  The calls that the spec asks of the scoring, in the order of the contexts: for each
  context one call per predicted span, \<open>add_tp\<close> when the span is among the gold spans of
  the context and \<open>add_fp\<close> otherwise, then one \<open>add_fn\<close> per gold span that is not among
  the predicted spans of the context.
\<close>

definition expected_context_calls :: "span list \<Rightarrow> span list \<Rightarrow> metric_call list" where
  "expected_context_calls gold_sent_spans predicted_sent_spans =
     map (\<lambda>sp. if sp \<in> set gold_sent_spans then Add_tp sp else Add_fp sp) predicted_sent_spans
     @ map Add_fn (filter (\<lambda>sp. sp \<notin> set predicted_sent_spans) gold_sent_spans)"

definition expected_calls :: "span list list \<Rightarrow> span list list \<Rightarrow> metric_call list" where
  "expected_calls gold_entity_spans predicted_entity_spans =
     concat (map (\<lambda>(g, p). expected_context_calls g p)
                 (zip gold_entity_spans predicted_entity_spans))"

section \<open>A concrete evaluator\<close>

text \<open>
  An index layout for the concrete runs: the none tag 0, B 1, I 2, E 3, S 4. The general
  statements below hold for every layout; the concrete runs use this one, with the none
  tag \<open>O\<close> and no dataset.
\<close>

definition example_tag_index :: "string \<Rightarrow> string \<Rightarrow> int" where
  "example_tag_index text_tag none =
     (if text_tag = none then 0
      else if text_tag = ''B'' then 1
      else if text_tag = ''I'' then 2
      else if text_tag = ''E'' then 3
      else if text_tag = ''S'' then 4
      else - 1)"

definition example_evaluator :: "int \<Rightarrow> int list list \<Rightarrow> int list list \<Rightarrow> evaluator_qa" where
  "example_evaluator n g p =
     \<lparr>num_labels = n, none_tag = ''O'', gold = g, predicted = p, dataset = None,
      get_tag_index = example_tag_index\<rparr>"

text \<open>
  The same evaluator with a dataset of two contexts, one asking for diseases and one for
  drugs.
\<close>

definition example_dataset :: ner_qa_dataset where
  "example_dataset =
     \<lparr>contexts = [\<lparr>entity = ''DISEASE''\<rparr>, \<lparr>entity = ''DRUG''\<rparr>],
      tag_to_text_mapping = [(''DISEASE'', ''disease''), (''DRUG'', ''drug'')]\<rparr>"

definition example_typed_evaluator ::
  "int \<Rightarrow> int list list \<Rightarrow> int list list \<Rightarrow> evaluator_qa" where
  "example_typed_evaluator n g p = (example_evaluator n g p)\<lparr>dataset := Some example_dataset\<rparr>"

text \<open>
  What one call adds to the true positives, false positives and false negatives of the
  entity type \<open>t\<close> in the accumulator of the spec.
\<close>

fun call_tp :: "string \<Rightarrow> metric_call \<Rightarrow> nat" where
  "call_tp t (Add_tp sp) = (if span_tag sp = t then 1 else 0)"
| "call_tp t (Add_fp sp) = 0"
| "call_tp t (Add_fn sp) = 0"

fun call_fp :: "string \<Rightarrow> metric_call \<Rightarrow> nat" where
  "call_fp t (Add_tp sp) = 0"
| "call_fp t (Add_fp sp) = (if span_tag sp = t then 1 else 0)"
| "call_fp t (Add_fn sp) = 0"

fun call_fn :: "string \<Rightarrow> metric_call \<Rightarrow> nat" where
  "call_fn t (Add_tp sp) = 0"
| "call_fn t (Add_fp sp) = 0"
| "call_fn t (Add_fn sp) = (if span_tag sp = t then 1 else 0)"

text \<open>A metric with two registered types and the counters (8, 2, 0) and (2, 0, 8).\<close>

definition example_metric :: metric where
  "example_metric =
     \<lparr>registry = [''DISEASE'', ''DRUG''],
      counts = (\<lambda>t. if t = ''DISEASE''
                     then \<lparr>true_positive = 8, false_positive = 2, false_negative = 0\<rparr>
                     else if t = ''DRUG''
                     then \<lparr>true_positive = 2, false_positive = 0, false_negative = 8\<rparr>
                     else \<lparr>true_positive = 0, false_positive = 0, false_negative = 0\<rparr>)\<rparr>"

section \<open>The iterations of the decoders, branch by branch\<close>

lemma scorable_gold_at:
  "scorable self c p \<Longrightarrow> \<exists>g. gold_at self c p = Inr g \<and> g \<noteq> - 100"
  by (auto simp: scorable_def split: sum.splits)

lemma get_spans_tok_ignored:
  "gold_at self c p = Inr (- 100) \<Longrightarrow> get_spans_tok self c p x st = Inr (fst st, None)"
  by (simp add: get_spans_tok_def Let_def)

lemma get_spans_tok_b:
  assumes "scorable self c p" and "entity_tag self c = Inr t"
  shows "get_spans_tok self c p (b_tag_index self) st =
           Inr (fst st @ [Span c p p t], Some (length (fst st)))"
  using scorable_gold_at[OF assms(1)] assms(2)
  by (auto simp: get_spans_tok_def Let_def)

lemma get_spans_tok_s:
  assumes "scorable self c p" and "entity_tag self c = Inr t"
    and "s_tag_index self \<noteq> b_tag_index self"
  shows "get_spans_tok self c p (s_tag_index self) st = Inr (fst st @ [Span c p p t], None)"
  using scorable_gold_at[OF assms(1)] assms(2,3)
  by (auto simp: get_spans_tok_def Let_def)

lemma get_spans_tok_i:
  assumes "scorable self c p" and "entity_tag self c = Inr (span_tag (cs ! k))"
    and "i_tag_index self \<noteq> b_tag_index self" and "i_tag_index self \<noteq> s_tag_index self"
  shows "get_spans_tok self c p (i_tag_index self) (cs, Some k) =
           (if num_labels self = 3 then Inr (set_end cs k p, Some k) else Inr (cs, Some k))"
  using scorable_gold_at[OF assms(1)] assms(2,3,4)
  by (auto simp: get_spans_tok_def Let_def)

lemma get_spans_tok_e:
  assumes "scorable self c p" and "entity_tag self c = Inr (span_tag (cs ! k))"
    and "e_tag_index self \<noteq> b_tag_index self" and "e_tag_index self \<noteq> s_tag_index self"
    and "e_tag_index self \<noteq> i_tag_index self"
  shows "get_spans_tok self c p (e_tag_index self) (cs, Some k) = Inr (set_end cs k p, Some k)"
  using scorable_gold_at[OF assms(1)] assms(2,3,4,5)
  by (auto simp: get_spans_tok_def Let_def)

lemma get_spans_tok_other:
  assumes "gold_at self c p = Inr g"
    and "x \<noteq> b_tag_index self" and "x \<noteq> s_tag_index self"
    and "x \<noteq> i_tag_index self" and "x \<noteq> e_tag_index self"
  shows "get_spans_tok self c p x st = Inr (fst st, None)"
  using assms by (simp add: get_spans_tok_def Let_def)

lemma get_spans_for_2_tag_scheme_tok_ignored:
  "gold_at self c p = Inr (- 100) \<Longrightarrow>
     get_spans_for_2_tag_scheme_tok self c p x st = Inr (fst st, None)"
  by (simp add: get_spans_for_2_tag_scheme_tok_def Let_def)




lemma set_end_singleton: "set_end [Span c p q t] 0 r = [Span c p r t]"
  by (simp add: set_end_def Span_def)

lemma span_tag_Span: "span_tag (Span c p q t) = t"
  by (simp add: Span_def)

lemma example_indices:
  "b_tag_index (example_evaluator n g p) = 1"
  "i_tag_index (example_evaluator n g p) = 2"
  "e_tag_index (example_evaluator n g p) = 3"
  "s_tag_index (example_evaluator n g p) = 4"
  by (simp_all add: b_tag_index_def i_tag_index_def e_tag_index_def s_tag_index_def
      example_evaluator_def example_tag_index_def)

lemma example_fields:
  "num_labels (example_evaluator n g p) = n"
  "gold (example_evaluator n g p) = g"
  "predicted (example_evaluator n g p) = p"
  "entity_tag (example_evaluator n g p) c = Inr ''TAG''"
  by (simp_all add: example_evaluator_def entity_tag_def dataset_truthy_def)

section \<open>The schemes\<close>



lemma example_scorable:
  "scorable (example_evaluator n g p) c m =
     (c < length g \<and> m < length (g ! c) \<and> g ! c ! m \<noteq> - 100)"
  by (simp add: scorable_def gold_at_def example_fields)

text \<open>
  Claim C1, as amended. Under the 4-class BIOE scheme (\<open>num_labels = 4\<close>) an I token
  leaves the end of the open span where it is, and an E token moves it. On a context with
  no ignored position the tags B, I, E, O decode to exactly one span, from 0 to 2; the
  tags B, I, O, with no E, decode to exactly one span, from 0 to 0: the end stays at
  the B token.
\<close>

theorem bioe_boundary:
  assumes "num_labels self = 4"
    and "i_tag_index self \<noteq> b_tag_index self" and "i_tag_index self \<noteq> s_tag_index self"
    and "e_tag_index self \<noteq> b_tag_index self" and "e_tag_index self \<noteq> s_tag_index self"
    and "e_tag_index self \<noteq> i_tag_index self"
  shows "(\<forall>c p cs k. scorable self c p \<and> entity_tag self c = Inr (span_tag (cs ! k)) \<longrightarrow>
            get_spans_tok self c p (i_tag_index self) (cs, Some k) = Inr (cs, Some k))
       \<and> (\<forall>x t. x \<notin> {b_tag_index self, s_tag_index self, i_tag_index self, e_tag_index self}
              \<and> (\<forall>p < 4. scorable self 0 p) \<and> entity_tag self 0 = Inr t \<longrightarrow>
            decode self [[b_tag_index self, i_tag_index self, e_tag_index self, x]]
              = Inr [[Span 0 0 2 t]])
       \<and> (\<forall>x t. x \<notin> {b_tag_index self, s_tag_index self, i_tag_index self, e_tag_index self}
              \<and> (\<forall>p < 3. scorable self 0 p) \<and> entity_tag self 0 = Inr t \<longrightarrow>
            decode self [[b_tag_index self, i_tag_index self, x]]
              = Inr [[Span 0 0 0 t]])"
proof (intro conjI allI impI)
  fix c p k and cs :: "span list"
  assume "scorable self c p \<and> entity_tag self c = Inr (span_tag (cs ! k))"
  then show "get_spans_tok self c p (i_tag_index self) (cs, Some k) = Inr (cs, Some k)"
    using get_spans_tok_i[of self c p cs k] assms by simp
next
  fix x t
  assume h: "x \<notin> {b_tag_index self, s_tag_index self, i_tag_index self, e_tag_index self}
              \<and> (\<forall>p < 4. scorable self 0 p) \<and> entity_tag self 0 = Inr t"
  then have sc: "scorable self 0 0" "scorable self 0 (Suc 0)" "scorable self 0 (Suc (Suc 0))"
    "scorable self 0 (Suc (Suc (Suc 0)))"
    by (simp_all add: numeral_eq_Suc)
  from h have t: "entity_tag self 0 = Inr t" by simp
  obtain g where g: "gold_at self 0 (Suc (Suc (Suc 0))) = Inr g"
    using scorable_gold_at[OF sc(4)] by blast
  have 0: "get_spans_tok self 0 0 (b_tag_index self) ([], None) = Inr ([Span 0 0 0 t], Some 0)"
    using get_spans_tok_b[OF sc(1) t, of "([], None)"] by simp
  have 1: "get_spans_tok self 0 (Suc 0) (i_tag_index self) ([Span 0 0 0 t], Some 0)
             = Inr ([Span 0 0 0 t], Some 0)"
    using get_spans_tok_i[OF sc(2) _ assms(2,3), of "[Span 0 0 0 t]" 0] t assms(1)
    by (simp add: span_tag_Span)
  have 2: "get_spans_tok self 0 (Suc (Suc 0)) (e_tag_index self) ([Span 0 0 0 t], Some 0)
             = Inr ([Span 0 0 2 t], Some 0)"
    using get_spans_tok_e[OF sc(3) _ assms(4,5,6), of "[Span 0 0 0 t]" 0] t
    by (simp add: span_tag_Span set_end_singleton numeral_2_eq_2)
  have 3: "get_spans_tok self 0 (Suc (Suc (Suc 0))) x ([Span 0 0 2 t], Some 0)
             = Inr ([Span 0 0 2 t], None)"
    using get_spans_tok_other[OF g, of x "([Span 0 0 2 t], Some 0)"] h by simp
  show "decode self [[b_tag_index self, i_tag_index self, e_tag_index self, x]]
          = Inr [[Span 0 0 2 t]]"
    using assms(1) by (simp add: decode_def get_spans_def 0 1 2 3)
next
  fix x t
  assume h: "x \<notin> {b_tag_index self, s_tag_index self, i_tag_index self, e_tag_index self}
              \<and> (\<forall>p < 3. scorable self 0 p) \<and> entity_tag self 0 = Inr t"
  then have sc: "scorable self 0 0" "scorable self 0 (Suc 0)" "scorable self 0 (Suc (Suc 0))"
    by (simp_all add: numeral_eq_Suc)
  from h have t: "entity_tag self 0 = Inr t" by simp
  obtain g where g: "gold_at self 0 (Suc (Suc 0)) = Inr g"
    using scorable_gold_at[OF sc(3)] by blast
  have 0: "get_spans_tok self 0 0 (b_tag_index self) ([], None) = Inr ([Span 0 0 0 t], Some 0)"
    using get_spans_tok_b[OF sc(1) t, of "([], None)"] by simp
  have 1: "get_spans_tok self 0 (Suc 0) (i_tag_index self) ([Span 0 0 0 t], Some 0)
             = Inr ([Span 0 0 0 t], Some 0)"
    using get_spans_tok_i[OF sc(2) _ assms(2,3), of "[Span 0 0 0 t]" 0] t assms(1)
    by (simp add: span_tag_Span)
  have 2: "get_spans_tok self 0 (Suc (Suc 0)) x ([Span 0 0 0 t], Some 0)
             = Inr ([Span 0 0 0 t], None)"
    using get_spans_tok_other[OF g, of x "([Span 0 0 0 t], Some 0)"] h by simp
  show "decode self [[b_tag_index self, i_tag_index self, x]] = Inr [[Span 0 0 0 t]]"
    using assms(1) by (simp add: decode_def get_spans_def 0 1 2)
qed

theorem bioe_boundary_witness:
  "num_labels (example_evaluator 4 [[1, 2, 3, 0]] [[1, 2, 3, 0]]) = 4
   \<and> i_tag_index (example_evaluator 4 [[1, 2, 3, 0]] [[1, 2, 3, 0]])
       \<noteq> b_tag_index (example_evaluator 4 [[1, 2, 3, 0]] [[1, 2, 3, 0]])
   \<and> i_tag_index (example_evaluator 4 [[1, 2, 3, 0]] [[1, 2, 3, 0]])
       \<noteq> s_tag_index (example_evaluator 4 [[1, 2, 3, 0]] [[1, 2, 3, 0]])
   \<and> e_tag_index (example_evaluator 4 [[1, 2, 3, 0]] [[1, 2, 3, 0]])
       \<noteq> b_tag_index (example_evaluator 4 [[1, 2, 3, 0]] [[1, 2, 3, 0]])
   \<and> e_tag_index (example_evaluator 4 [[1, 2, 3, 0]] [[1, 2, 3, 0]])
       \<noteq> s_tag_index (example_evaluator 4 [[1, 2, 3, 0]] [[1, 2, 3, 0]])
   \<and> e_tag_index (example_evaluator 4 [[1, 2, 3, 0]] [[1, 2, 3, 0]])
       \<noteq> i_tag_index (example_evaluator 4 [[1, 2, 3, 0]] [[1, 2, 3, 0]])
   \<and> scorable (example_evaluator 4 [[1, 2, 3, 0]] [[1, 2, 3, 0]]) 0 0
   \<and> scorable (example_evaluator 4 [[1, 2, 3, 0]] [[1, 2, 3, 0]]) 0 1
   \<and> scorable (example_evaluator 4 [[1, 2, 3, 0]] [[1, 2, 3, 0]]) 0 2
   \<and> scorable (example_evaluator 4 [[1, 2, 3, 0]] [[1, 2, 3, 0]]) 0 3
   \<and> get_spans_tok (example_evaluator 4 [[1, 2, 3, 0]] [[1, 2, 3, 0]]) 0 1 2
         ([Span 0 0 0 ''TAG''], Some 0) = Inr ([Span 0 0 0 ''TAG''], Some 0)
   \<and> decode (example_evaluator 4 [[1, 2, 3, 0]] [[1, 2, 3, 0]]) [[1, 2, 3, 0]]
       = Inr [[Span 0 0 2 ''TAG'']]
   \<and> decode (example_evaluator 4 [[1, 2, 3, 0]] [[1, 2, 3, 0]]) [[1, 2, 0]]
       = Inr [[Span 0 0 0 ''TAG'']]"
proof -
  let ?e = "example_evaluator 4 [[1, 2, 3, 0]] [[1, 2, 3, 0]]"
  have h1: "num_labels ?e = 4" by (simp add: example_fields)
  have h2: "i_tag_index ?e \<noteq> b_tag_index ?e" "i_tag_index ?e \<noteq> s_tag_index ?e"
    "e_tag_index ?e \<noteq> b_tag_index ?e" "e_tag_index ?e \<noteq> s_tag_index ?e"
    "e_tag_index ?e \<noteq> i_tag_index ?e"
    by (simp_all add: example_indices)
  have sc: "scorable ?e 0 0" "scorable ?e 0 1" "scorable ?e 0 2" "scorable ?e 0 3"
    by (simp_all add: example_scorable)
  have sc4: "\<forall>p < 4. scorable ?e 0 p"
    by (simp add: example_scorable nth_Cons split: nat.splits)
  have sc3: "\<forall>p < 3. scorable ?e 0 p"
    by (simp add: example_scorable nth_Cons split: nat.splits)
  have tg: "entity_tag ?e 0 = Inr ''TAG''" by (simp add: example_fields)
  note inst = bioe_boundary[OF h1 h2]
  from inst have "scorable ?e 0 1 \<and> entity_tag ?e 0 = Inr (span_tag ([Span 0 0 0 ''TAG''] ! 0)) \<longrightarrow>
      get_spans_tok ?e 0 1 (i_tag_index ?e) ([Span 0 0 0 ''TAG''], Some 0)
        = Inr ([Span 0 0 0 ''TAG''], Some 0)"
    by blast
  then have a: "get_spans_tok ?e 0 1 2 ([Span 0 0 0 ''TAG''], Some 0) = Inr ([Span 0 0 0 ''TAG''], Some 0)"
    using sc tg by (simp add: example_indices span_tag_Span)
  from inst have "(0::int) \<notin> {b_tag_index ?e, s_tag_index ?e, i_tag_index ?e, e_tag_index ?e}
              \<and> (\<forall>p < 4. scorable ?e 0 p) \<and> entity_tag ?e 0 = Inr ''TAG'' \<longrightarrow>
            decode ?e [[b_tag_index ?e, i_tag_index ?e, e_tag_index ?e, 0]]
              = Inr [[Span 0 0 2 ''TAG'']]"
    by blast
  then have b: "decode ?e [[1, 2, 3, 0]] = Inr [[Span 0 0 2 ''TAG'']]"
    using sc4 tg by (simp add: example_indices)
  from inst have "(0::int) \<notin> {b_tag_index ?e, s_tag_index ?e, i_tag_index ?e, e_tag_index ?e}
              \<and> (\<forall>p < 3. scorable ?e 0 p) \<and> entity_tag ?e 0 = Inr ''TAG'' \<longrightarrow>
            decode ?e [[b_tag_index ?e, i_tag_index ?e, 0]]
              = Inr [[Span 0 0 0 ''TAG'']]"
    by blast
  then have c: "decode ?e [[1, 2, 0]] = Inr [[Span 0 0 0 ''TAG'']]"
    using sc3 tg by (simp add: example_indices)
  show ?thesis using h1 h2 sc a b c by simp
qed

text \<open>
  The claim C1 as stated fails: with the none tag 0, B 1 and I 2, the tags B, I, O of
  a 4-class run decode to the span from 0 to 0, not to a span from 0 to 1.
\<close>

theorem bioe_missing_e_counterexample:
  "decode (example_evaluator 4 [[1, 2, 0]] [[1, 2, 0]]) [[1, 2, 0]] = Inr [[Span 0 0 0 ''TAG'']]
   \<and> decode (example_evaluator 4 [[1, 2, 0]] [[1, 2, 0]]) [[1, 2, 0]] \<noteq> Inr [[Span 0 0 1 ''TAG'']]"
  by (simp add: decode_def get_spans_def get_spans_tok_def example_fields example_indices
      gold_at_def Span_def)

lemma set_end_two: "set_end [a, Span c p q t] (Suc 0) r = [a, Span c p r t]"
  by (simp add: set_end_def Span_def)




section \<open>Tags that are none of the looked-up indices\<close>







section \<open>Invariants of the loops\<close>

lemma get_spans_tok_step:
  assumes "get_spans_tok self c m x st = Inr st'"
  shows "decode_step self c m st st'"
proof -
  obtain cs prev where st: "st = (cs, prev)" by (cases st)
  show ?thesis
    using assms unfolding st get_spans_tok_def Let_def
    by (auto split: sum.splits if_splits simp: scorable_def intro: decode_step.intros)
qed

lemma get_spans_for_2_tag_scheme_tok_step:
  assumes "get_spans_for_2_tag_scheme_tok self c m x st = Inr st'"
  shows "decode_step self c m st st'"
proof -
  obtain cs prev where st: "st = (cs, prev)" by (cases st)
  show ?thesis
    using assms unfolding st get_spans_for_2_tag_scheme_tok_def Let_def
    by (auto split: sum.splits if_splits simp: scorable_def intro: decode_step.intros)
qed

lemma set_set_end:
  "s \<in> set (set_end cs k p) \<Longrightarrow>
     s \<in> set cs \<or> (k < length cs \<and> s = (cs ! k)\<lparr>span_end := p\<rparr>)"
  unfolding set_end_def
  by (cases "k < length cs")
     (auto simp: list_update_beyond dest: subsetD[OF set_update_subset_insert])

lemma tags_inv_step:
  assumes "decode_step self c m st st'" and "tags_inv self c st"
  shows "tags_inv self c st'"
  using assms
  by (cases rule: decode_step.cases) (auto simp: tags_inv_def Span_def dest!: set_set_end)

lemma mask_inv_step:
  assumes "decode_step self c m st st'" and "mask_inv self c st"
  shows "mask_inv self c st'"
  using assms
  by (cases rule: decode_step.cases) (auto simp: mask_inv_def Span_def dest!: set_set_end)

lemma set_end_last:
  assumes "Suc k = length cs"
  shows "set_end cs k p = butlast cs @ [(last cs)\<lparr>span_end := p\<rparr>]"
proof -
  from assms have "cs \<noteq> []" by auto
  then obtain ys y where cs: "cs = ys @ [y]" by (metis rev_exhaust)
  with assms have "k = length ys" by simp
  then show ?thesis unfolding set_end_def cs by simp
qed

lemma order_inv_set_end:
  assumes "order_inv n (cs, Some k)"
  shows "order_inv (Suc n) (set_end cs k n, Some k)"
proof -
  from assms have k: "Suc k = length cs" by (simp add: order_inv_def)
  then have "cs \<noteq> []" by auto
  then obtain ys y where cs: "cs = ys @ [y]" by (metis rev_exhaust)
  have upd: "set_end (ys @ [y]) k n = ys @ [y\<lparr>span_end := n\<rparr>]"
    using set_end_last[OF k] cs by simp
  have a1: "sorted_wrt (\<lambda>a b. span_end a < span_start b) ys"
    and a2: "\<forall>s \<in> set ys. span_end s < span_start y"
    and a3: "\<forall>s \<in> set ys. span_start s \<le> span_end s \<and> span_end s < n"
    and a4: "span_start y \<le> span_end y" "span_end y < n"
    using assms unfolding cs order_inv_def by (simp_all add: sorted_wrt_append)
  have "sorted_wrt (\<lambda>a b. span_end a < span_start b) (ys @ [y\<lparr>span_end := n\<rparr>])"
    using a1 a2 by (simp add: sorted_wrt_append)
  moreover have "\<forall>s \<in> set (ys @ [y\<lparr>span_end := n\<rparr>]).
                   span_start s \<le> span_end s \<and> span_end s < Suc n"
    using a3 a4 by (simp add: less_Suc_eq ball_Un)
  moreover have "Suc k = length (ys @ [y\<lparr>span_end := n\<rparr>])" using k cs by simp
  ultimately show ?thesis
    unfolding cs upd order_inv_def by simp
qed

lemma order_inv_step:
  assumes "decode_step self c m st st'" and "order_inv m st"
  shows "order_inv (Suc m) st'"
  using assms
proof (cases rule: decode_step.cases)
  case (step_extend cs k)
  then show ?thesis using assms(2) order_inv_set_end by simp
qed (auto simp: order_inv_def sorted_wrt_append Span_def less_Suc_eq)

lemma for_tok_index_invariant:
  assumes "for_tok_index tok n xs st = Inr st'"
    and "P n st"
    and "\<And>m x s s'. P m s \<Longrightarrow> tok m x s = Inr s' \<Longrightarrow> P (Suc m) s'"
  shows "P (n + length xs) st'"
  using assms(1,2)
proof (induction xs arbitrary: n st)
  case Nil
  then show ?case by simp
next
  case (Cons x xs)
  from Cons.prems(1) obtain s1 where s1: "tok n x st = Inr s1"
    and rest: "for_tok_index tok (Suc n) xs s1 = Inr st'"
    by (auto split: sum.splits)
  have "P (Suc n) s1" using assms(3) Cons.prems(2) s1 by blast
  from Cons.IH[OF rest this] show ?case by simp
qed

text \<open>The loop over a row passes through the state that the loop over a prefix ends in.\<close>

lemma for_tok_index_append:
  "for_tok_index tok n (xs @ ys) st =
     (case for_tok_index tok n xs st of
        Inl err \<Rightarrow> Inl err
      | Inr st' \<Rightarrow> for_tok_index tok (n + length xs) ys st')"
  by (induction xs arbitrary: n st) (auto split: sum.splits)

lemma for_context_index_nth:
  assumes "for_context_index tok c rows = Inr bs"
  shows "length bs = length rows \<and>
         (\<forall>j < length rows. \<exists>st. for_tok_index (tok (c + j)) 0 (rows ! j) ([], None) = Inr st
              \<and> bs ! j = fst st)"
  using assms
proof (induction rows arbitrary: c bs)
  case Nil
  then show ?case by simp
next
  case (Cons row rows)
  from Cons.prems obtain st bs' where st: "for_tok_index (tok c) 0 row ([], None) = Inr st"
    and rest: "for_context_index tok (Suc c) rows = Inr bs'"
    and bs: "bs = fst st # bs'"
    by (auto split: sum.splits)
  from Cons.IH[OF rest] have len: "length bs' = length rows"
    and nth: "\<And>j. j < length rows \<Longrightarrow>
      \<exists>st. for_tok_index (tok (Suc c + j)) 0 (rows ! j) ([], None) = Inr st \<and> bs' ! j = fst st"
    by auto
  show ?case
  proof (intro conjI allI impI)
    show "length bs = length (row # rows)" using bs len by simp
  next
    fix j assume j: "j < length (row # rows)"
    show "\<exists>st. for_tok_index (tok (c + j)) 0 ((row # rows) ! j) ([], None) = Inr st
             \<and> bs ! j = fst st"
    proof (cases j)
      case 0
      then show ?thesis using st bs by simp
    next
      case (Suc j')
      then have "j' < length rows" using j by simp
      from nth[OF this] show ?thesis using Suc bs by simp
    qed
  qed
qed

lemma row_inv_init: "row_inv self c 0 ([], None)"
  by (simp add: row_inv_def tags_inv_def mask_inv_def order_inv_def)

lemma row_inv_step:
  assumes "row_inv self c m st" and "decode_step self c m st st'"
  shows "row_inv self c (Suc m) st'"
  using assms tags_inv_step mask_inv_step order_inv_step unfolding row_inv_def by blast

lemma row_state:
  assumes "for_tok_index (get_spans_tok self c) 0 xs ([], None) = Inr st
           \<or> for_tok_index (get_spans_for_2_tag_scheme_tok self c) 0 xs ([], None) = Inr st"
  shows "row_inv self c (length xs) st"
  using assms
proof
  assume "for_tok_index (get_spans_tok self c) 0 xs ([], None) = Inr st"
  from for_tok_index_invariant[where P = "row_inv self c", OF this row_inv_init]
  show ?thesis using row_inv_step get_spans_tok_step by simp
next
  assume "for_tok_index (get_spans_for_2_tag_scheme_tok self c) 0 xs ([], None) = Inr st"
  from for_tok_index_invariant[where P = "row_inv self c", OF this row_inv_init]
  show ?thesis using row_inv_step get_spans_for_2_tag_scheme_tok_step by simp
qed

lemma context_state:
  assumes "get_spans self batch = Inr bs \<or> get_spans_for_2_tag_scheme self batch = Inr bs"
    and "c < length bs"
  shows "\<exists>st n. bs ! c = fst st \<and> row_inv self c n st"
  using assms(1)
proof
  assume "get_spans self batch = Inr bs"
  then have run: "for_context_index (get_spans_tok self) 0 batch = Inr bs"
    by (simp add: get_spans_def)
  from for_context_index_nth[OF run] assms(2)
  obtain st where "for_tok_index (get_spans_tok self c) 0 (batch ! c) ([], None) = Inr st"
    and "bs ! c = fst st"
    by auto
  then show ?thesis using row_state[of self c "batch ! c" st] by blast
next
  assume "get_spans_for_2_tag_scheme self batch = Inr bs"
  then have run: "for_context_index (get_spans_for_2_tag_scheme_tok self) 0 batch = Inr bs"
    by (simp add: get_spans_for_2_tag_scheme_def)
  from for_context_index_nth[OF run] assms(2)
  obtain st where
    "for_tok_index (get_spans_for_2_tag_scheme_tok self c) 0 (batch ! c) ([], None) = Inr st"
    and "bs ! c = fst st"
    by auto
  then show ?thesis using row_state[of self c "batch ! c" st] by blast
qed

section \<open>Properties of the decoded spans\<close>

text \<open>
  Claim C2. At a position where the gold array holds -100 an iteration of either decoder
  only sets \<open>prev_span\<close> to \<open>None\<close>, whatever the tag of the decoded sequence there. And
  for every gold array and every decoded batch, the gold one or the predicted one, no
  span that either decoder returns for a context starts or ends at a position where the
  gold array holds -100.
\<close>

theorem ignored_positions_excluded:
  "(gold_at self c p = Inr (- 100) \<longrightarrow>
      get_spans_tok self c p x st = Inr (fst st, None)
      \<and> get_spans_for_2_tag_scheme_tok self c p x st = Inr (fst st, None))
   \<and> ((get_spans self batch = Inr batch_spans
         \<or> get_spans_for_2_tag_scheme self batch = Inr batch_spans)
        \<and> c < length batch_spans \<and> s \<in> set (batch_spans ! c)
        \<and> gold_at self c p = Inr (- 100) \<longrightarrow>
      span_start s \<noteq> p \<and> span_end s \<noteq> p)"
proof (intro conjI impI)
  assume "gold_at self c p = Inr (- 100)"
  then show "get_spans_tok self c p x st = Inr (fst st, None)"
    and "get_spans_for_2_tag_scheme_tok self c p x st = Inr (fst st, None)"
    by (simp_all add: get_spans_tok_ignored get_spans_for_2_tag_scheme_tok_ignored)
next
  assume h: "(get_spans self batch = Inr batch_spans
         \<or> get_spans_for_2_tag_scheme self batch = Inr batch_spans)
        \<and> c < length batch_spans \<and> s \<in> set (batch_spans ! c)
        \<and> gold_at self c p = Inr (- 100)"
  then obtain st' n where "batch_spans ! c = fst st'" and "row_inv self c n st'"
    using context_state[of self batch batch_spans c] by blast
  with h have "scorable self c (span_start s)" and "scorable self c (span_end s)"
    by (simp_all add: row_inv_def mask_inv_def)
  moreover from h have "\<not> scorable self c p" by (simp add: scorable_def)
  ultimately show "span_start s \<noteq> p" and "span_end s \<noteq> p" by auto
qed

text \<open>
  The hypotheses of C2 hold for the example evaluator: against the gold row 1, -100, 1
  the predicted tags B, I, I of a BIO run give the span from 0 to 0 only, and the
  iteration at position 1 closes the span that the B opened.
\<close>

theorem ignored_positions_excluded_witness:
  "gold_at (example_evaluator 3 [[1, - 100, 1]] [[1, 2, 2]]) 0 1 = Inr (- 100)
   \<and> get_spans (example_evaluator 3 [[1, - 100, 1]] [[1, 2, 2]]) [[1, 2, 2]]
        = Inr [[Span 0 0 0 ''TAG'']]
   \<and> 0 < length [[Span 0 0 0 ''TAG'']]
   \<and> Span 0 0 0 ''TAG'' \<in> set ([[Span 0 0 0 ''TAG'']] ! 0)
   \<and> get_spans_tok (example_evaluator 3 [[1, - 100, 1]] [[1, 2, 2]]) 0 1 2
        ([Span 0 0 0 ''TAG''], Some 0) = Inr ([Span 0 0 0 ''TAG''], None)
   \<and> span_start (Span 0 0 0 ''TAG'') \<noteq> 1 \<and> span_end (Span 0 0 0 ''TAG'') \<noteq> 1"
proof -
  let ?e = "example_evaluator 3 [[1, - 100, 1]] [[1, 2, 2]]"
  have g: "gold_at ?e 0 1 = Inr (- 100)" by (simp add: gold_at_def example_fields)
  have d: "get_spans ?e [[1, 2, 2]] = Inr [[Span 0 0 0 ''TAG'']]"
    by (simp add: get_spans_def get_spans_tok_def example_fields example_indices gold_at_def)
  have m: "Span 0 0 0 ''TAG'' \<in> set ([[Span 0 0 0 ''TAG'']] ! 0)" by simp
  note inst = ignored_positions_excluded[of ?e 0 1 2 "([Span 0 0 0 ''TAG''], Some 0)"
      "[[1, 2, 2]]" "[[Span 0 0 0 ''TAG'']]" "Span 0 0 0 ''TAG''"]
  from inst g have a: "get_spans_tok ?e 0 1 2 ([Span 0 0 0 ''TAG''], Some 0)
        = Inr ([Span 0 0 0 ''TAG''], None)"
    by simp
  from inst g d m have b: "span_start (Span 0 0 0 ''TAG'') \<noteq> 1 \<and> span_end (Span 0 0 0 ''TAG'') \<noteq> 1"
    by simp
  show ?thesis using g d m a b by simp
qed

text \<open>
  Claim C7. For every batch and every context, the spans that a decoder, of any scheme,
  returns for the context are in the order of their positions and do not overlap: every
  span starts no later than it ends, and ends before every span appended after it
  starts.
\<close>

theorem decoded_spans_ordered:
  assumes "get_spans self batch = Inr batch_spans
           \<or> get_spans_for_2_tag_scheme self batch = Inr batch_spans"
    and "c < length batch_spans" and "i < j" and "j < length (batch_spans ! c)"
  shows "span_start (batch_spans ! c ! i) \<le> span_end (batch_spans ! c ! i)
       \<and> span_end (batch_spans ! c ! i) < span_start (batch_spans ! c ! j)
       \<and> span_start (batch_spans ! c ! j) \<le> span_end (batch_spans ! c ! j)"
proof -
  obtain st n where st: "batch_spans ! c = fst st" and inv: "row_inv self c n st"
    using context_state[OF assms(1,2)] by blast
  from inv have sorted: "sorted_wrt (\<lambda>a b. span_end a < span_start b) (batch_spans ! c)"
    and le: "\<forall>s \<in> set (batch_spans ! c). span_start s \<le> span_end s"
    by (simp_all add: row_inv_def order_inv_def st)
  from sorted assms(3,4) have "span_end (batch_spans ! c ! i) < span_start (batch_spans ! c ! j)"
    by (simp add: sorted_wrt_iff_nth_less)
  moreover from le assms(3,4) have "span_start (batch_spans ! c ! i) \<le> span_end (batch_spans ! c ! i)"
    and "span_start (batch_spans ! c ! j) \<le> span_end (batch_spans ! c ! j)"
    by simp_all
  ultimately show ?thesis by simp
qed

text \<open>
  The hypotheses of C7 hold for the example evaluator: the tags B, I, O, B, E of a BIOE
  run give the spans from 0 to 0 and from 3 to 4.
\<close>

theorem decoded_spans_ordered_witness:
  "get_spans (example_evaluator 4 [[1, 2, 0, 1, 3]] [[1, 2, 0, 1, 3]]) [[1, 2, 0, 1, 3]]
     = Inr [[Span 0 0 0 ''TAG'', Span 0 3 4 ''TAG'']]
   \<and> (0::nat) < length [[Span 0 0 0 ''TAG'', Span 0 3 4 ''TAG'']]
   \<and> (0::nat) < 1
   \<and> 1 < length ([[Span 0 0 0 ''TAG'', Span 0 3 4 ''TAG'']] ! 0)
   \<and> span_start (Span 0 0 0 ''TAG'') \<le> span_end (Span 0 0 0 ''TAG'')
   \<and> span_end (Span 0 0 0 ''TAG'') < span_start (Span 0 3 4 ''TAG'')
   \<and> span_start (Span 0 3 4 ''TAG'') \<le> span_end (Span 0 3 4 ''TAG'')"
proof -
  let ?e = "example_evaluator 4 [[1, 2, 0, 1, 3]] [[1, 2, 0, 1, 3]]"
  have d: "get_spans ?e [[1, 2, 0, 1, 3]] = Inr [[Span 0 0 0 ''TAG'', Span 0 3 4 ''TAG'']]"
    by (simp add: get_spans_def get_spans_tok_def example_fields example_indices gold_at_def
        set_end_def Span_def)
  have "span_start ([[Span 0 0 0 ''TAG'', Span 0 3 4 ''TAG'']] ! 0 ! 0)
          \<le> span_end ([[Span 0 0 0 ''TAG'', Span 0 3 4 ''TAG'']] ! 0 ! 0)
       \<and> span_end ([[Span 0 0 0 ''TAG'', Span 0 3 4 ''TAG'']] ! 0 ! 0)
          < span_start ([[Span 0 0 0 ''TAG'', Span 0 3 4 ''TAG'']] ! 0 ! 1)
       \<and> span_start ([[Span 0 0 0 ''TAG'', Span 0 3 4 ''TAG'']] ! 0 ! 1)
          \<le> span_end ([[Span 0 0 0 ''TAG'', Span 0 3 4 ''TAG'']] ! 0 ! 1)"
    by (rule decoded_spans_ordered[of ?e "[[1, 2, 0, 1, 3]]"]) (simp_all add: d)
  then show ?thesis using d by simp
qed

lemma example_typed_fields:
  "num_labels (example_typed_evaluator n g p) = n"
  "gold (example_typed_evaluator n g p) = g"
  "predicted (example_typed_evaluator n g p) = p"
  "b_tag_index (example_typed_evaluator n g p) = 1"
  "i_tag_index (example_typed_evaluator n g p) = 2"
  "e_tag_index (example_typed_evaluator n g p) = 3"
  "s_tag_index (example_typed_evaluator n g p) = 4"
  "entity_tag (example_typed_evaluator n g p) 0 = Inr ''DISEASE''"
  "entity_tag (example_typed_evaluator n g p) (Suc 0) = Inr ''DRUG''"
  by (simp_all add: example_typed_evaluator_def example_evaluator_def example_dataset_def
      entity_tag_def dataset_truthy_def b_tag_index_def i_tag_index_def e_tag_index_def
      s_tag_index_def example_tag_index_def)

text \<open>
  Claim C10. Every span that a decoder returns for a context carries the type resolved
  for that context: the entity of the context in the dataset, or \<open>TAG\<close> without a dataset.
  And in every state that the loop over a row reaches, after any part \<open>xs\<close> of the row, an
  open span is one of the spans of the context and its type is the resolved type: the
  test \<open>tag == prev_span.tag\<close> never fails, so the branches that set \<open>prev_span\<close> to \<open>None\<close>
  because the types differ are never taken.
\<close>

theorem single_type_per_context:
  "((get_spans self batch = Inr batch_spans
       \<or> get_spans_for_2_tag_scheme self batch = Inr batch_spans)
      \<and> c < length batch_spans \<and> s \<in> set (batch_spans ! c) \<longrightarrow>
      entity_tag self c = Inr (span_tag s))
   \<and> (for_tok_index (get_spans_tok self c) 0 xs ([], None) = Inr st
       \<or> for_tok_index (get_spans_for_2_tag_scheme_tok self c) 0 xs ([], None) = Inr st \<longrightarrow>
      (\<forall>k. snd st = Some k \<longrightarrow>
         k < length (fst st) \<and> entity_tag self c = Inr (span_tag (fst st ! k)))
      \<and> \<not> type_mismatch self c st)"
proof (intro conjI impI)
  assume h: "(get_spans self batch = Inr batch_spans
       \<or> get_spans_for_2_tag_scheme self batch = Inr batch_spans)
      \<and> c < length batch_spans \<and> s \<in> set (batch_spans ! c)"
  then obtain st' n where "batch_spans ! c = fst st'" and "row_inv self c n st'"
    using context_state[of self batch batch_spans c] by blast
  with h show "entity_tag self c = Inr (span_tag s)"
    by (simp add: row_inv_def tags_inv_def)
next
  assume "for_tok_index (get_spans_tok self c) 0 xs ([], None) = Inr st
       \<or> for_tok_index (get_spans_for_2_tag_scheme_tok self c) 0 xs ([], None) = Inr st"
  from row_state[OF this]
  have tags: "\<forall>s \<in> set (fst st). entity_tag self c = Inr (span_tag s)"
    and last: "\<forall>k. snd st = Some k \<longrightarrow> Suc k = length (fst st)"
    by (simp_all add: row_inv_def tags_inv_def order_inv_def)
  show open_span: "\<forall>k. snd st = Some k \<longrightarrow>
         k < length (fst st) \<and> entity_tag self c = Inr (span_tag (fst st ! k))"
  proof (intro allI impI)
    fix k assume "snd st = Some k"
    with last have k: "k < length (fst st)" by auto
    then have "fst st ! k \<in> set (fst st)" by simp
    with tags k show "k < length (fst st) \<and> entity_tag self c = Inr (span_tag (fst st ! k))"
      by blast
  qed
  show "\<not> type_mismatch self c st"
    using open_span by (auto simp: type_mismatch_def split: option.splits sum.splits)
qed

text \<open>
  The hypotheses of C10 hold for the example evaluator with the dataset: the second
  context asks for drugs and its span is a drug; after the B of the first context the
  open span is a disease, the type resolved there.
\<close>

theorem single_type_per_context_witness:
  "get_spans (example_typed_evaluator 3 [[1, 2], [1]] [[1, 2], [1]]) [[1, 2], [1]]
     = Inr [[Span 0 0 1 ''DISEASE''], [Span 1 0 0 ''DRUG'']]
   \<and> 1 < length [[Span 0 0 1 ''DISEASE''], [Span 1 0 0 ''DRUG'']]
   \<and> Span 1 0 0 ''DRUG'' \<in> set ([[Span 0 0 1 ''DISEASE''], [Span 1 0 0 ''DRUG'']] ! 1)
   \<and> entity_tag (example_typed_evaluator 3 [[1, 2], [1]] [[1, 2], [1]]) 1
       = Inr (span_tag (Span 1 0 0 ''DRUG''))
   \<and> for_tok_index (get_spans_tok (example_typed_evaluator 3 [[1, 2], [1]] [[1, 2], [1]]) 0)
        0 [1] ([], None) = Inr ([Span 0 0 0 ''DISEASE''], Some 0)
   \<and> entity_tag (example_typed_evaluator 3 [[1, 2], [1]] [[1, 2], [1]]) 0
       = Inr (span_tag ([Span 0 0 0 ''DISEASE''] ! 0))
   \<and> \<not> type_mismatch (example_typed_evaluator 3 [[1, 2], [1]] [[1, 2], [1]]) 0
         ([Span 0 0 0 ''DISEASE''], Some 0)"
proof -
  let ?e = "example_typed_evaluator 3 [[1, 2], [1]] [[1, 2], [1]]"
  have d: "get_spans ?e [[1, 2], [1]] = Inr [[Span 0 0 1 ''DISEASE''], [Span 1 0 0 ''DRUG'']]"
    by (simp add: get_spans_def get_spans_tok_def example_typed_fields gold_at_def
        set_end_def Span_def)
  have m: "Span 1 0 0 ''DRUG'' \<in> set ([[Span 0 0 1 ''DISEASE''], [Span 1 0 0 ''DRUG'']] ! 1)"
    by simp
  have r: "for_tok_index (get_spans_tok ?e 0) 0 [1] ([], None)
             = Inr ([Span 0 0 0 ''DISEASE''], Some 0)"
    by (simp add: get_spans_tok_def example_typed_fields gold_at_def)
  from single_type_per_context[of ?e "[[1, 2], [1]]"
      "[[Span 0 0 1 ''DISEASE''], [Span 1 0 0 ''DRUG'']]" 1 "Span 1 0 0 ''DRUG''"] d m
  have a: "entity_tag ?e 1 = Inr (span_tag (Span 1 0 0 ''DRUG''))"
    by simp
  from single_type_per_context[where self = ?e and c = 0 and xs = "[1]"
      and st = "([Span 0 0 0 ''DISEASE''], Some 0)"] r
  have b: "entity_tag ?e 0 = Inr (span_tag ([Span 0 0 0 ''DISEASE''] ! 0))"
    and c: "\<not> type_mismatch ?e 0 ([Span 0 0 0 ''DISEASE''], Some 0)"
    by simp_all
  show ?thesis using d m r a b c by simp
qed

section \<open>Scoring\<close>

lemma fold_predicted_calls:
  "fold (\<lambda>sp m. if sp \<in> G then acc m (Add_tp sp) else acc m (Add_fp sp)) p m
     = fold (\<lambda>call m. acc m call) (map (\<lambda>sp. if sp \<in> G then Add_tp sp else Add_fp sp) p) m"
  by (induction p arbitrary: m) auto

lemma fold_gold_calls:
  "fold (\<lambda>sp m. if sp \<notin> P then acc m (Add_fn sp) else m) g m
     = fold (\<lambda>call m. acc m call) (map Add_fn (filter (\<lambda>sp. sp \<notin> P) g)) m"
  by (induction g arbitrary: m) auto

lemma calc_context_metrics_calls:
  "calc_context_metrics acc g p m = fold (\<lambda>call m. acc m call) (expected_context_calls g p) m"
  by (simp add: calc_context_metrics_def expected_context_calls_def fold_predicted_calls
      fold_gold_calls)

lemma calc_entity_metrics_calls:
  "calc_entity_metrics acc m0 gs ps = fold (\<lambda>call m. acc m call) (expected_calls gs ps) m0"
proof -
  have "fold (\<lambda>(g, p) m. calc_context_metrics acc g p m) zs m
          = fold (\<lambda>call m. acc m call) (concat (map (\<lambda>(g, p). expected_context_calls g p) zs)) m"
    for zs m
    by (induction zs arbitrary: m) (auto simp: calc_context_metrics_calls)
  then show ?thesis by (simp add: calc_entity_metrics_def expected_calls_def)
qed

lemma counts_add:
  "counts (add_tp m sp) t =
     (if t = span_tag sp
      then (counts m t)\<lparr>true_positive := Suc (true_positive (counts m t))\<rparr> else counts m t)"
  "counts (add_fp m sp) t =
     (if t = span_tag sp
      then (counts m t)\<lparr>false_positive := Suc (false_positive (counts m t))\<rparr> else counts m t)"
  "counts (add_fn m sp) t =
     (if t = span_tag sp
      then (counts m t)\<lparr>false_negative := Suc (false_negative (counts m t))\<rparr> else counts m t)"
  by (simp_all add: add_tp_def add_fp_def add_fn_def Let_def)

lemma counts_metric_acc:
  "true_positive (counts (metric_acc m call) t) = true_positive (counts m t) + call_tp t call"
  "false_positive (counts (metric_acc m call) t) = false_positive (counts m t) + call_fp t call"
  "false_negative (counts (metric_acc m call) t) = false_negative (counts m t) + call_fn t call"
  by (cases call; simp add: counts_add)+

lemma counts_fold_metric_acc:
  "true_positive (counts (fold (\<lambda>call m. metric_acc m call) cs m) t)
     = true_positive (counts m t) + sum_list (map (call_tp t) cs)"
  "false_positive (counts (fold (\<lambda>call m. metric_acc m call) cs m) t)
     = false_positive (counts m t) + sum_list (map (call_fp t) cs)"
  "false_negative (counts (fold (\<lambda>call m. metric_acc m call) cs m) t)
     = false_negative (counts m t) + sum_list (map (call_fn t) cs)"
  by (induction cs arbitrary: m; simp add: counts_metric_acc)+

lemma sum_list_indicator:
  "sum_list (map (\<lambda>x. if P x then (1::nat) else 0) xs) = length (filter P xs)"
  by (induction xs) auto

lemma context_calls_counts:
  "sum_list (map (call_tp t) (expected_context_calls g p))
     = length (filter (\<lambda>sp. sp \<in> set g \<and> span_tag sp = t) p)"
  "sum_list (map (call_fp t) (expected_context_calls g p))
     = length (filter (\<lambda>sp. sp \<notin> set g \<and> span_tag sp = t) p)"
  "sum_list (map (call_fn t) (expected_context_calls g p))
     = length (filter (\<lambda>sp. sp \<notin> set p \<and> span_tag sp = t) g)"
proof -
  have tp: "call_tp t (if sp \<in> set g then Add_tp sp else Add_fp sp)
              = (if sp \<in> set g \<and> span_tag sp = t then 1 else 0)" for sp
    by simp
  have fp: "call_fp t (if sp \<in> set g then Add_tp sp else Add_fp sp)
              = (if sp \<notin> set g \<and> span_tag sp = t then 1 else 0)" for sp
    by simp
  show "sum_list (map (call_tp t) (expected_context_calls g p))
     = length (filter (\<lambda>sp. sp \<in> set g \<and> span_tag sp = t) p)"
    by (simp add: expected_context_calls_def comp_def tp sum_list_indicator)
  show "sum_list (map (call_fp t) (expected_context_calls g p))
     = length (filter (\<lambda>sp. sp \<notin> set g \<and> span_tag sp = t) p)"
    by (simp add: expected_context_calls_def comp_def fp sum_list_indicator)
  show "sum_list (map (call_fn t) (expected_context_calls g p))
     = length (filter (\<lambda>sp. sp \<notin> set p \<and> span_tag sp = t) g)"
    by (simp add: expected_context_calls_def comp_def sum_list_indicator conj_commute)
qed

lemma calls_counts:
  "sum_list (map (call_tp t) (expected_calls gs ps))
     = sum_list (map (\<lambda>(g, p). length (filter (\<lambda>sp. sp \<in> set g \<and> span_tag sp = t) p)) (zip gs ps))"
  "sum_list (map (call_fp t) (expected_calls gs ps))
     = sum_list (map (\<lambda>(g, p). length (filter (\<lambda>sp. sp \<notin> set g \<and> span_tag sp = t) p)) (zip gs ps))"
  "sum_list (map (call_fn t) (expected_calls gs ps))
     = sum_list (map (\<lambda>(g, p). length (filter (\<lambda>sp. sp \<notin> set p \<and> span_tag sp = t) g)) (zip gs ps))"
proof -
  have "sum_list (map (call_tp t) (concat (map (\<lambda>(g, p). expected_context_calls g p) zs)))
     = sum_list (map (\<lambda>(g, p). length (filter (\<lambda>sp. sp \<in> set g \<and> span_tag sp = t) p)) zs)"
    for zs
    by (induction zs) (auto simp: context_calls_counts)
  then show "sum_list (map (call_tp t) (expected_calls gs ps))
     = sum_list (map (\<lambda>(g, p). length (filter (\<lambda>sp. sp \<in> set g \<and> span_tag sp = t) p)) (zip gs ps))"
    by (simp add: expected_calls_def)
  have "sum_list (map (call_fp t) (concat (map (\<lambda>(g, p). expected_context_calls g p) zs)))
     = sum_list (map (\<lambda>(g, p). length (filter (\<lambda>sp. sp \<notin> set g \<and> span_tag sp = t) p)) zs)"
    for zs
    by (induction zs) (auto simp: context_calls_counts)
  then show "sum_list (map (call_fp t) (expected_calls gs ps))
     = sum_list (map (\<lambda>(g, p). length (filter (\<lambda>sp. sp \<notin> set g \<and> span_tag sp = t) p)) (zip gs ps))"
    by (simp add: expected_calls_def)
  have "sum_list (map (call_fn t) (concat (map (\<lambda>(g, p). expected_context_calls g p) zs)))
     = sum_list (map (\<lambda>(g, p). length (filter (\<lambda>sp. sp \<notin> set p \<and> span_tag sp = t) g)) zs)"
    for zs
    by (induction zs) (auto simp: context_calls_counts)
  then show "sum_list (map (call_fn t) (expected_calls gs ps))
     = sum_list (map (\<lambda>(g, p). length (filter (\<lambda>sp. sp \<notin> set p \<and> span_tag sp = t) g)) (zip gs ps))"
    by (simp add: expected_calls_def)
qed

lemma counts_Metric:
  "true_positive (counts (Metric tags) t) = 0"
  "false_positive (counts (Metric tags) t) = 0"
  "false_negative (counts (Metric tags) t) = 0"
  by (simp_all add: Metric_def)

text \<open>
  Claim C6. The scoring makes the calls that the spec describes and no other, whatever
  the accumulator does with them: over the contexts of the two lists taken in pairs,
  one call per predicted span, \<open>add_tp\<close> when a span equal to it is among the gold spans of
  the context and \<open>add_fp\<close> otherwise, and one \<open>add_fn\<close> per gold span with no equal span
  among the predicted spans of the context. With the accumulator of the spec, the
  counters of an entity type are the numbers of such spans of that type: there is no
  partial credit.
\<close>

theorem exact_match_scoring:
  "calc_entity_metrics acc m0 gold_entity_spans predicted_entity_spans
     = fold (\<lambda>call m. acc m call) (expected_calls gold_entity_spans predicted_entity_spans) m0
   \<and> true_positive
       (counts (calc_entity_metrics metric_acc (Metric tags) gold_entity_spans
                  predicted_entity_spans) t)
     = sum_list (map (\<lambda>(g, p). length (filter (\<lambda>sp. sp \<in> set g \<and> span_tag sp = t) p))
                     (zip gold_entity_spans predicted_entity_spans))
   \<and> false_positive
       (counts (calc_entity_metrics metric_acc (Metric tags) gold_entity_spans
                  predicted_entity_spans) t)
     = sum_list (map (\<lambda>(g, p). length (filter (\<lambda>sp. sp \<notin> set g \<and> span_tag sp = t) p))
                     (zip gold_entity_spans predicted_entity_spans))
   \<and> false_negative
       (counts (calc_entity_metrics metric_acc (Metric tags) gold_entity_spans
                  predicted_entity_spans) t)
     = sum_list (map (\<lambda>(g, p). length (filter (\<lambda>sp. sp \<notin> set p \<and> span_tag sp = t) g))
                     (zip gold_entity_spans predicted_entity_spans))"
  by (simp add: calc_entity_metrics_calls counts_fold_metric_acc counts_Metric calls_counts)

text \<open>
  C6 on the spans of the spec: the gold span from 0 to 2 of a disease against the same
  predicted span is one true positive; against the predicted span from 0 to 1 it is one
  false positive and one false negative.
\<close>

theorem exact_match_scoring_witness:
  "reported (Inr (calc_entity_metrics metric_acc (Metric [''DISEASE''])
       [[Span 0 0 2 ''DISEASE'']] [[Span 0 0 2 ''DISEASE'']])) ''DISEASE''
     = Inr \<lparr>true_positive = 1, false_positive = 0, false_negative = 0\<rparr>
   \<and> reported (Inr (calc_entity_metrics metric_acc (Metric [''DISEASE''])
       [[Span 0 0 2 ''DISEASE'']] [[Span 0 0 1 ''DISEASE'']])) ''DISEASE''
     = Inr \<lparr>true_positive = 0, false_positive = 1, false_negative = 1\<rparr>"
proof -
  let ?m1 = "calc_entity_metrics metric_acc (Metric [''DISEASE''])
       [[Span 0 0 2 ''DISEASE'']] [[Span 0 0 2 ''DISEASE'']]"
  let ?m2 = "calc_entity_metrics metric_acc (Metric [''DISEASE''])
       [[Span 0 0 2 ''DISEASE'']] [[Span 0 0 1 ''DISEASE'']]"
  have neq: "Span 0 0 1 ''DISEASE'' \<noteq> Span 0 0 2 ''DISEASE''" by (simp add: Span_def)
  from exact_match_scoring[of metric_acc "Metric [''DISEASE'']"
      "[[Span 0 0 2 ''DISEASE'']]" "[[Span 0 0 2 ''DISEASE'']]" "[''DISEASE'']" "''DISEASE''",
      THEN conjunct2]
  have a: "true_positive (counts ?m1 ''DISEASE'') = 1"
    "false_positive (counts ?m1 ''DISEASE'') = 0"
    "false_negative (counts ?m1 ''DISEASE'') = 0"
    by (simp_all add: span_tag_Span)
  from exact_match_scoring[of metric_acc "Metric [''DISEASE'']"
      "[[Span 0 0 2 ''DISEASE'']]" "[[Span 0 0 1 ''DISEASE'']]" "[''DISEASE'']" "''DISEASE''",
      THEN conjunct2] neq
  have b: "true_positive (counts ?m2 ''DISEASE'') = 0"
    "false_positive (counts ?m2 ''DISEASE'') = 1"
    "false_negative (counts ?m2 ''DISEASE'') = 1"
    by (simp_all add: span_tag_Span)
  have "counts ?m1 ''DISEASE'' = \<lparr>true_positive = 1, false_positive = 0, false_negative = 0\<rparr>"
    using a by (intro counters.equality) simp_all
  moreover
  have "counts ?m2 ''DISEASE'' = \<lparr>true_positive = 0, false_positive = 1, false_negative = 1\<rparr>"
    using b by (intro counters.equality) simp_all
  ultimately show ?thesis by (simp add: reported_def)
qed

section \<open>The micro-average\<close>

text \<open>
  Claim C9. The micro-average applies the formulas of precision, recall and F1 to the
  sums of the counters over the registered entity types. For two registered types with
  the counters (8, 2, 0) and (2, 0, 8) the sums are (10, 2, 8), the precision is 10/12,
  the recall 10/18 and the F1 2/3, within a thousandth of 0.667; it is not the mean of
  the F1 of the two types, which are 8/9 and 1/3.
\<close>

theorem micro_average_pools_counts:
  assumes "registry m = [a, b]"
    and "counts m a = \<lparr>true_positive = 8, false_positive = 2, false_negative = 0\<rparr>"
    and "counts m b = \<lparr>true_positive = 2, false_positive = 0, false_negative = 8\<rparr>"
  shows "micro_counts m = \<lparr>true_positive = 10, false_positive = 2, false_negative = 8\<rparr>
       \<and> micro_avg_precision m = 10 / 12
       \<and> micro_avg_recall m = 10 / 18
       \<and> micro_avg_f1 m = 2 / 3
       \<and> \<bar>micro_avg_f1 m - 0.667\<bar> < 0.001
       \<and> f1 (counts m a) = 8 / 9
       \<and> f1 (counts m b) = 1 / 3
       \<and> micro_avg_f1 m \<noteq> (f1 (counts m a) + f1 (counts m b)) / 2"
proof -
  have mc: "micro_counts m = \<lparr>true_positive = 10, false_positive = 2, false_negative = 8\<rparr>"
    using assms by (simp add: micro_counts_def)
  have p: "micro_avg_precision m = 10 / 12"
    by (simp add: micro_avg_precision_def mc precision_def)
  have r: "micro_avg_recall m = 10 / 18"
    by (simp add: micro_avg_recall_def mc recall_def)
  have f: "micro_avg_f1 m = 2 / 3"
    by (simp add: micro_avg_f1_def mc f1_def precision_def recall_def)
  have fa: "f1 (counts m a) = 8 / 9"
    using assms(2) by (simp add: f1_def precision_def recall_def)
  have fb: "f1 (counts m b) = 1 / 3"
    using assms(3) by (simp add: f1_def precision_def recall_def)
  have near: "\<bar>micro_avg_f1 m - 0.667\<bar> < 0.001"
    unfolding f by simp
  have ne: "micro_avg_f1 m \<noteq> (f1 (counts m a) + f1 (counts m b)) / 2"
    unfolding f fa fb by simp
  show ?thesis using mc p r f near fa fb ne by simp
qed

text \<open>The hypotheses of C9 hold for a metric with the two types of the example dataset.\<close>

theorem micro_average_pools_counts_witness:
  "registry example_metric = [''DISEASE'', ''DRUG'']
   \<and> counts example_metric ''DISEASE''
        = \<lparr>true_positive = 8, false_positive = 2, false_negative = 0\<rparr>
   \<and> counts example_metric ''DRUG''
        = \<lparr>true_positive = 2, false_positive = 0, false_negative = 8\<rparr>
   \<and> micro_avg_precision example_metric = 10 / 12
   \<and> micro_avg_recall example_metric = 10 / 18
   \<and> micro_avg_f1 example_metric = 2 / 3
   \<and> micro_avg_f1 example_metric
        \<noteq> (f1 (counts example_metric ''DISEASE'') + f1 (counts example_metric ''DRUG'')) / 2"
proof -
  have h: "registry example_metric = [''DISEASE'', ''DRUG'']"
    "counts example_metric ''DISEASE''
        = \<lparr>true_positive = 8, false_positive = 2, false_negative = 0\<rparr>"
    "counts example_metric ''DRUG''
        = \<lparr>true_positive = 2, false_positive = 0, false_negative = 8\<rparr>"
    by (simp_all add: example_metric_def)
  from micro_average_pools_counts[OF h] h show ?thesis by simp
qed

section \<open>Shapes of gold and predicted\<close>

lemma py_error_is_IndexError: "(err :: py_error) = IndexError"
  by (cases err) simp

lemma tok_success_gold:
  "get_spans_tok self c m x st = Inr st' \<Longrightarrow> m < gold_len self c"
  "get_spans_for_2_tag_scheme_tok self c m x st = Inr st' \<Longrightarrow> m < gold_len self c"
  by (auto simp: get_spans_tok_def get_spans_for_2_tag_scheme_tok_def gold_at_def gold_len_def
      Let_def split: if_splits)

lemma for_tok_index_success:
  assumes "for_tok_index tok n xs st = Inr st'"
    and "\<And>m x s s'. tok m x s = Inr s' \<Longrightarrow> m < bound"
  shows "n + length xs \<le> bound \<or> xs = []"
  using assms(1)
proof (induction xs arbitrary: n st)
  case Nil
  then show ?case by simp
next
  case (Cons x xs)
  from Cons.prems obtain s1 where s1: "tok n x st = Inr s1"
    and rest: "for_tok_index tok (Suc n) xs s1 = Inr st'"
    by (auto split: sum.splits)
  from assms(2)[OF s1] have "n < bound" .
  with Cons.IH[OF rest] show ?case by auto
qed

lemma decode_success_fits:
  assumes "decode self batch = Inr bs"
  shows "fits_gold self batch"
  unfolding fits_gold_def
proof (intro allI impI)
  fix c assume c: "c < length batch"
  show "length (batch ! c) \<le> gold_len self c"
  proof (cases "num_labels self = 2")
    case True
    with assms have "for_context_index (get_spans_for_2_tag_scheme_tok self) 0 batch = Inr bs"
      by (simp add: decode_def get_spans_for_2_tag_scheme_def)
    from for_context_index_nth[OF this] c obtain st where
      "for_tok_index (get_spans_for_2_tag_scheme_tok self c) 0 (batch ! c) ([], None) = Inr st"
      by auto
    from for_tok_index_success[OF this, of "gold_len self c"] tok_success_gold(2)
    show ?thesis by auto
  next
    case False
    with assms have "for_context_index (get_spans_tok self) 0 batch = Inr bs"
      by (simp add: decode_def get_spans_def)
    from for_context_index_nth[OF this] c obtain st where
      "for_tok_index (get_spans_tok self c) 0 (batch ! c) ([], None) = Inr st"
      by auto
    from for_tok_index_success[OF this, of "gold_len self c"] tok_success_gold(1)
    show ?thesis by auto
  qed
qed

lemma tok_total:
  assumes "\<not> dataset_truthy (dataset self)" and "m < gold_len self c"
  shows "\<exists>st'. get_spans_tok self c m x st = Inr st'"
    and "\<exists>st'. get_spans_for_2_tag_scheme_tok self c m x st = Inr st'"
  using assms
  by (auto simp: get_spans_tok_def get_spans_for_2_tag_scheme_tok_def gold_at_def gold_len_def
      entity_tag_def Let_def split: if_splits)

lemma for_tok_index_total:
  assumes "\<And>m x s. m < bound \<Longrightarrow> \<exists>s'. tok m x s = Inr s'"
    and "n + length xs \<le> bound"
  shows "\<exists>st'. for_tok_index tok n xs st = Inr st'"
  using assms(2)
proof (induction xs arbitrary: n st)
  case Nil
  then show ?case by simp
next
  case (Cons x xs)
  then have "n < bound" by simp
  from assms(1)[OF this] obtain s1 where s1: "tok n x st = Inr s1" by blast
  from Cons.prems have "Suc n + length xs \<le> bound" by simp
  from Cons.IH[OF this] obtain st' where "for_tok_index tok (Suc n) xs s1 = Inr st'" by blast
  with s1 show ?case by simp
qed

lemma for_context_index_total:
  assumes "\<And>j. j < length rows \<Longrightarrow>
             \<exists>st. for_tok_index (tok (c + j)) 0 (rows ! j) ([], None) = Inr st"
  shows "\<exists>bs. for_context_index tok c rows = Inr bs"
  using assms
proof (induction rows arbitrary: c)
  case Nil
  then show ?case by simp
next
  case (Cons row rows)
  from Cons.prems[of 0] obtain st where st: "for_tok_index (tok c) 0 row ([], None) = Inr st"
    by auto
  have "\<exists>st. for_tok_index (tok (Suc c + j)) 0 (rows ! j) ([], None) = Inr st"
    if "j < length rows" for j
    using Cons.prems[of "Suc j"] that by simp
  from Cons.IH[OF this] obtain bs where "for_context_index tok (Suc c) rows = Inr bs"
    by blast
  with st show ?case by simp
qed

lemma decode_total:
  assumes "\<not> dataset_truthy (dataset self)" and "fits_gold self batch"
  shows "\<exists>bs. decode self batch = Inr bs"
proof -
  have rows: "length (batch ! j) \<le> gold_len self j" if "j < length batch" for j
    using assms(2) that by (simp add: fits_gold_def)
  show ?thesis
  proof (cases "num_labels self = 2")
    case True
    have "\<exists>st. for_tok_index (get_spans_for_2_tag_scheme_tok self (0 + j)) 0 (batch ! j)
                  ([], None) = Inr st"
      if "j < length batch" for j
      using for_tok_index_total[of "gold_len self j" "get_spans_for_2_tag_scheme_tok self j" 0
          "batch ! j" "([], None)"] tok_total(2)[OF assms(1)] rows[OF that]
      by simp
    from for_context_index_total[of batch "get_spans_for_2_tag_scheme_tok self" 0, OF this]
    show ?thesis using True by (simp add: decode_def get_spans_for_2_tag_scheme_def)
  next
    case False
    have "\<exists>st. for_tok_index (get_spans_tok self (0 + j)) 0 (batch ! j) ([], None) = Inr st"
      if "j < length batch" for j
      using for_tok_index_total[of "gold_len self j" "get_spans_tok self j" 0
          "batch ! j" "([], None)"] tok_total(1)[OF assms(1)] rows[OF that]
      by simp
    from for_context_index_total[of batch "get_spans_tok self" 0, OF this]
    show ?thesis using False by (simp add: decode_def get_spans_def)
  qed
qed

lemma fits_gold_self: "fits_gold self (gold self)"
  by (simp add: fits_gold_def gold_len_def)

text \<open>The decoders read the gold array only at the contexts of the decoded batch.\<close>

lemma for_tok_index_cong:
  assumes "\<And>m x s. tok m x s = tok' m x s"
  shows "for_tok_index tok n xs st = for_tok_index tok' n xs st"
  by (induction xs arbitrary: n st) (auto simp: assms split: sum.splits)

lemma for_context_index_cong:
  assumes "\<And>j m x s. j < length rows \<Longrightarrow> tok (c + j) m x s = tok' (c + j) m x s"
  shows "for_context_index tok c rows = for_context_index tok' c rows"
  using assms
proof (induction rows arbitrary: c)
  case Nil
  then show ?case by simp
next
  case (Cons row rows)
  have 1: "for_tok_index (tok c) 0 row ([], None) = for_tok_index (tok' c) 0 row ([], None)"
    using Cons.prems[of 0] by (intro for_tok_index_cong) simp
  have "tok (Suc c + j) m x s = tok' (Suc c + j) m x s" if "j < length rows" for j m x s
    using Cons.prems[of "Suc j"] that by simp
  from Cons.IH[OF this]
  have 2: "for_context_index tok (Suc c) rows = for_context_index tok' (Suc c) rows" .
  show ?case unfolding for_context_index.simps 1 2 by simp
qed

lemma for_context_index_take:
  assumes "for_context_index tok c rows = Inr bs"
  shows "for_context_index tok c (take n rows) = Inr (take n bs)"
  using assms
proof (induction rows arbitrary: c bs n)
  case Nil
  then show ?case by simp
next
  case (Cons row rows)
  from Cons.prems obtain st bs' where st: "for_tok_index (tok c) 0 row ([], None) = Inr st"
    and rest: "for_context_index tok (Suc c) rows = Inr bs'"
    and bs: "bs = fst st # bs'"
    by (auto split: sum.splits)
  show ?case
  proof (cases n)
    case 0
    then show ?thesis by simp
  next
    case (Suc n')
    from Cons.IH[OF rest, of n'] show ?thesis using Suc st bs by simp
  qed
qed

lemma zip_take_shorter: "zip (take (length ys) xs) ys = zip xs ys"
proof (induction ys arbitrary: xs)
  case Nil
  then show ?case by simp
next
  case (Cons y ys)
  then show ?case by (cases xs) simp_all
qed

lemma tok_gold_take:
  assumes "c < n"
  shows "get_spans_tok (self\<lparr>gold := take n (gold self)\<rparr>) c m x st = get_spans_tok self c m x st"
    and "get_spans_for_2_tag_scheme_tok (self\<lparr>gold := take n (gold self)\<rparr>) c m x st
           = get_spans_for_2_tag_scheme_tok self c m x st"
proof -
  have g: "gold_at (self\<lparr>gold := take n (gold self)\<rparr>) c m = gold_at self c m"
    using assms by (simp add: gold_at_def)
  have e: "entity_tag (self\<lparr>gold := take n (gold self)\<rparr>) c = entity_tag self c"
    by (simp add: entity_tag_def)
  have i: "b_tag_index (self\<lparr>gold := take n (gold self)\<rparr>) = b_tag_index self"
    "s_tag_index (self\<lparr>gold := take n (gold self)\<rparr>) = s_tag_index self"
    "i_tag_index (self\<lparr>gold := take n (gold self)\<rparr>) = i_tag_index self"
    "e_tag_index (self\<lparr>gold := take n (gold self)\<rparr>) = e_tag_index self"
    by (simp_all add: b_tag_index_def s_tag_index_def i_tag_index_def e_tag_index_def)
  have l: "num_labels (self\<lparr>gold := take n (gold self)\<rparr>) = num_labels self"
    by simp
  show "get_spans_tok (self\<lparr>gold := take n (gold self)\<rparr>) c m x st = get_spans_tok self c m x st"
    unfolding get_spans_tok_def g e i l by simp
  show "get_spans_for_2_tag_scheme_tok (self\<lparr>gold := take n (gold self)\<rparr>) c m x st
           = get_spans_for_2_tag_scheme_tok self c m x st"
    unfolding get_spans_for_2_tag_scheme_tok_def g e i by simp
qed

lemma decode_gold_take:
  assumes "length batch \<le> n"
  shows "decode (self\<lparr>gold := take n (gold self)\<rparr>) batch = decode self batch"
proof -
  have 1: "for_context_index (get_spans_tok (self\<lparr>gold := take n (gold self)\<rparr>)) 0 batch
             = for_context_index (get_spans_tok self) 0 batch"
    using assms by (intro for_context_index_cong) (simp add: tok_gold_take)
  have 2: "for_context_index (get_spans_for_2_tag_scheme_tok (self\<lparr>gold := take n (gold self)\<rparr>))
              0 batch
             = for_context_index (get_spans_for_2_tag_scheme_tok self) 0 batch"
    using assms by (intro for_context_index_cong) (simp add: tok_gold_take)
  show ?thesis
    by (simp add: decode_def get_spans_def get_spans_for_2_tag_scheme_def 1 2)
qed

lemma decode_take:
  assumes "decode self batch = Inr bs"
  shows "decode self (take n batch) = Inr (take n bs)"
  using assms for_context_index_take[of "get_spans_tok self" 0 batch bs n]
    for_context_index_take[of "get_spans_for_2_tag_scheme_tok self" 0 batch bs n]
  by (simp add: decode_def get_spans_def get_spans_for_2_tag_scheme_def split: if_splits)

lemma decode_length:
  assumes "decode self batch = Inr bs"
  shows "length bs = length batch"
  using assms for_context_index_nth[of "get_spans_tok self" 0 batch bs]
    for_context_index_nth[of "get_spans_for_2_tag_scheme_tok self" 0 batch bs]
  by (simp add: decode_def get_spans_def get_spans_for_2_tag_scheme_def split: if_splits)

text \<open>
  Claim C3, as amended. The evaluator checks no shape. When a row of the predicted array
  is longer than the gold row of the same context, an absent gold row counting as empty,
  it raises an \<open>IndexError\<close>. Without a dataset, when no predicted row is longer than
  its gold row, it returns a result. And whenever it returns a result for a predicted
  array that has no more contexts than the gold array, the result is the one for the
  gold array cut to the number of predicted contexts: the gold contexts beyond are left
  out of the metrics.
\<close>

theorem shape_mismatch_behaviour:
  "((\<exists>c < length (predicted self). gold_len self c < length (predicted self ! c)) \<longrightarrow>
      EvaluatorQA self = Inl IndexError)
   \<and> (\<not> dataset_truthy (dataset self) \<and> fits_gold self (predicted self) \<longrightarrow>
      (\<exists>m. EvaluatorQA self = Inr m))
   \<and> (EvaluatorQA self = Inr m \<and> length (predicted self) \<le> length (gold self) \<longrightarrow>
      EvaluatorQA (self\<lparr>gold := take (length (predicted self)) (gold self)\<rparr>) = Inr m)"
proof (intro conjI impI)
  assume long: "\<exists>c < length (predicted self). gold_len self c < length (predicted self ! c)"
  have "EvaluatorQA self \<noteq> Inr m'" for m'
  proof
    assume "EvaluatorQA self = Inr m'"
    then obtain ps where "decode self (predicted self) = Inr ps"
      by (auto simp: EvaluatorQA_def split: sum.splits)
    from decode_success_fits[OF this] long show False
      by (auto simp: fits_gold_def)
  qed
  then show "EvaluatorQA self = Inl IndexError"
    by (cases "EvaluatorQA self") (auto simp: py_error_is_IndexError)
next
  assume h: "\<not> dataset_truthy (dataset self) \<and> fits_gold self (predicted self)"
  then obtain gs where gs: "decode self (gold self) = Inr gs"
    using decode_total[OF _ fits_gold_self] by blast
  from h obtain ps where ps: "decode self (predicted self) = Inr ps"
    using decode_total by blast
  show "\<exists>m. EvaluatorQA self = Inr m"
    by (simp add: EvaluatorQA_def gs ps)
next
  assume h: "EvaluatorQA self = Inr m \<and> length (predicted self) \<le> length (gold self)"
  let ?n = "length (predicted self)"
  let ?self = "self\<lparr>gold := take ?n (gold self)\<rparr>"
  from h obtain gs ps where gs: "decode self (gold self) = Inr gs"
    and ps: "decode self (predicted self) = Inr ps"
    and m: "m = calc_entity_metrics metric_acc (Metric (evaluator_tags self)) gs ps"
    by (auto simp: EvaluatorQA_def split: sum.splits)
  have len: "length ps = ?n" using decode_length[OF ps] .
  have g': "decode ?self (take ?n (gold self)) = Inr (take ?n gs)"
    using decode_gold_take[of "take ?n (gold self)" ?n self] decode_take[OF gs, of ?n]
    by simp
  have p': "decode ?self (predicted self) = Inr ps"
    using decode_gold_take[of "predicted self" ?n self] ps by simp
  have t': "evaluator_tags ?self = evaluator_tags self"
    by (simp add: evaluator_tags_def)
  have "calc_entity_metrics metric_acc (Metric (evaluator_tags self)) (take ?n gs) ps = m"
    unfolding m calc_entity_metrics_def using zip_take_shorter[of ps gs] len by simp
  then show "EvaluatorQA ?self = Inr m"
    by (simp add: EvaluatorQA_def g' p' t')
qed

lemma example_reported:
  "reported (EvaluatorQA (example_evaluator 3 [[1], [1]] [[1]])) ''TAG''
     = Inr \<lparr>true_positive = 1, false_positive = 0, false_negative = 0\<rparr>"
proof -
  let ?e = "example_evaluator 3 [[1], [1]] [[1]]"
  have g: "decode ?e [[1], [1]] = Inr [[Span 0 0 0 ''TAG''], [Span 1 0 0 ''TAG'']]"
    by (simp add: decode_def get_spans_def get_spans_tok_def example_fields example_indices
        gold_at_def)
  have p: "decode ?e [[1]] = Inr [[Span 0 0 0 ''TAG'']]"
    by (simp add: decode_def get_spans_def get_spans_tok_def example_fields example_indices
        gold_at_def)
  have "counts (calc_entity_metrics metric_acc (Metric (evaluator_tags ?e))
          [[Span 0 0 0 ''TAG''], [Span 1 0 0 ''TAG'']] [[Span 0 0 0 ''TAG'']]) ''TAG''
        = \<lparr>true_positive = 1, false_positive = 0, false_negative = 0\<rparr>"
    by (intro counters.equality)
       (simp_all add: calc_entity_metrics_calls counts_fold_metric_acc counts_Metric
          calls_counts span_tag_Span)
  then show ?thesis
    by (simp add: reported_def EvaluatorQA_def example_fields g p)
qed

text \<open>
  The claim C3 as stated fails: with two gold contexts and one predicted context the
  evaluator raises nothing, and the gold span of the second context is not counted as
  a false negative.
\<close>

theorem fewer_predicted_contexts_counterexample:
  "length (gold (example_evaluator 3 [[1], [1]] [[1]])) = 2
   \<and> length (predicted (example_evaluator 3 [[1], [1]] [[1]])) = 1
   \<and> decode (example_evaluator 3 [[1], [1]] [[1]]) [[1], [1]]
        = Inr [[Span 0 0 0 ''TAG''], [Span 1 0 0 ''TAG'']]
   \<and> reported (EvaluatorQA (example_evaluator 3 [[1], [1]] [[1]])) ''TAG''
        = Inr \<lparr>true_positive = 1, false_positive = 0, false_negative = 0\<rparr>"
  using example_reported
  by (simp add: decode_def get_spans_def get_spans_tok_def example_fields example_indices
      gold_at_def)

text \<open>
  The hypotheses of C3 as amended hold for the example evaluator: a predicted row of
  two tags against a gold row of one raises; one predicted context against two gold
  contexts returns the metrics of the first gold context alone.
\<close>

theorem shape_mismatch_behaviour_witness:
  "(0::nat) < length (predicted (example_evaluator 3 [[1]] [[1, 2]]))
   \<and> gold_len (example_evaluator 3 [[1]] [[1, 2]]) 0
       < length (predicted (example_evaluator 3 [[1]] [[1, 2]]) ! 0)
   \<and> EvaluatorQA (example_evaluator 3 [[1]] [[1, 2]]) = Inl IndexError
   \<and> \<not> dataset_truthy (dataset (example_evaluator 3 [[1], [1]] [[1]]))
   \<and> fits_gold (example_evaluator 3 [[1], [1]] [[1]])
        (predicted (example_evaluator 3 [[1], [1]] [[1]]))
   \<and> length (predicted (example_evaluator 3 [[1], [1]] [[1]]))
       \<le> length (gold (example_evaluator 3 [[1], [1]] [[1]]))
   \<and> \<not> isl (EvaluatorQA (example_evaluator 3 [[1], [1]] [[1]]))
   \<and> EvaluatorQA (example_evaluator 3 [[1], [1]] [[1]])
       = EvaluatorQA (example_evaluator 3 [[1]] [[1]])"
proof -
  let ?a = "example_evaluator 3 [[1]] [[1, 2]]"
  let ?b = "example_evaluator 3 [[1], [1]] [[1]]"
  have a1: "\<exists>c < length (predicted ?a). gold_len ?a c < length (predicted ?a ! c)"
    by (simp add: example_fields gold_len_def)
  have a2: "(0::nat) < length (predicted ?a)" "gold_len ?a 0 < length (predicted ?a ! 0)"
    by (simp_all add: example_fields gold_len_def)
  from shape_mismatch_behaviour[of ?a] a1 have a: "EvaluatorQA ?a = Inl IndexError"
    by blast
  have b1: "\<not> dataset_truthy (dataset ?b)"
    by (simp add: example_evaluator_def dataset_truthy_def)
  have b2: "fits_gold ?b (predicted ?b)"
    by (simp add: fits_gold_def gold_len_def example_fields)
  have b3: "length (predicted ?b) \<le> length (gold ?b)"
    by (simp add: example_fields)
  from shape_mismatch_behaviour[of ?b] b1 b2 obtain m where m: "EvaluatorQA ?b = Inr m"
    by blast
  have cut: "?b\<lparr>gold := take (length (predicted ?b)) (gold ?b)\<rparr> = example_evaluator 3 [[1]] [[1]]"
    by (simp add: example_evaluator_def)
  from shape_mismatch_behaviour[of ?b m] m b3
  have "EvaluatorQA (?b\<lparr>gold := take (length (predicted ?b)) (gold ?b)\<rparr>) = Inr m"
    by blast
  then have b: "EvaluatorQA ?b = EvaluatorQA (example_evaluator 3 [[1]] [[1]])"
    using m cut by simp
  show ?thesis using a2 a b1 b2 b3 m b by simp
qed

end
